theory Spec2Isabelle
  imports Main "HOL-Library.Word" "HOL-Library.Monad_Syntax"
begin

section \<open>AutoTagger: an embedding of \<^verbatim>\<open>src/autotagger.py\<close>\<close>

text \<open>
  The program edits the ID3 tags of MP3 files through the mutagen library, and fills the
  edit fields from MusicBrainz. The embedding keeps the methods of class
  \<^verbatim>\<open>AutoTagger\<close> under their own names. The object's attributes and the texts of its
  widgets are a record, everything outside the object (the files on disk, the folder
  listings, the answers of the network, what was printed) is a second record, and each
  method takes both and returns both.

  Python strings are modelled as \<^typ>\<open>string\<close>, whose characters are the 256 code points
  of Latin-1; on those, \<^verbatim>\<open>\d\<close> of module \<^verbatim>\<open>re\<close> matches exactly the ten ASCII digits.
\<close>

subsection \<open>String operations of Python used by the program\<close>

definition isdigit :: "char \<Rightarrow> bool" where
  "isdigit c = (c \<in> set ''0123456789'')"

text \<open>\<^verbatim>\<open>str.isspace\<close> on one Latin-1 character: U+0009..U+000D, U+001C..U+0020, U+0085, U+00A0.\<close>

definition isspace :: "char \<Rightarrow> bool" where
  "isspace c = (let n = (of_char c :: nat) in
     (9 \<le> n \<and> n \<le> 13) \<or> (28 \<le> n \<and> n \<le> 32) \<or> n = 133 \<or> n = 160)"

definition strip :: "string \<Rightarrow> string" where
  "strip s = rev (dropWhile isspace (rev (dropWhile isspace s)))"

definition startswith :: "'a list \<Rightarrow> 'a list \<Rightarrow> bool" where
  "startswith s p = (take (length p) s = p)"

definition endswith :: "'a list \<Rightarrow> 'a list \<Rightarrow> bool" where
  "endswith s p = (length p \<le> length s \<and> drop (length s - length p) s = p)"

text \<open>\<^verbatim>\<open>sep in s\<close> for strings: \<^verbatim>\<open>sep\<close> occurs in \<^verbatim>\<open>s\<close> as a contiguous run.\<close>

fun contains :: "string \<Rightarrow> string \<Rightarrow> bool" where
  "contains sep [] = (sep = [])"
| "contains sep (c # cs) = (startswith (c # cs) sep \<or> contains sep cs)"

text \<open>
  \<^verbatim>\<open>s.split(sep, 1)\<close> for a \<^verbatim>\<open>sep\<close> that occurs in \<^verbatim>\<open>s\<close>: the text before the first
  occurrence and the text after it; \<open>None\<close> when \<^verbatim>\<open>sep\<close> does not occur (Python then returns
  the one-element list \<^verbatim>\<open>[s]\<close>).
\<close>

fun split1 :: "string \<Rightarrow> string \<Rightarrow> (string \<times> string) option" where
  "split1 sep [] = (if sep = [] then Some ([], []) else None)"
| "split1 sep (c # cs) =
     (if startswith (c # cs) sep then Some ([], drop (length sep) (c # cs))
      else map_option (\<lambda>(l, r). (c # l, r)) (split1 sep cs))"

text \<open>\<^verbatim>\<open>s.rfind(c)\<close> for a single character: the last index of \<^verbatim>\<open>c\<close>, or -1.\<close>

definition rfind :: "string \<Rightarrow> char \<Rightarrow> int" where
  "rfind s c = (if c \<in> set s
     then int (length s) - 1 - int (length (takeWhile (\<lambda>x. x \<noteq> c) (rev s)))
     else - 1)"

text \<open>\<^verbatim>\<open>os.path.basename\<close> of \<^verbatim>\<open>posixpath\<close>: \<^verbatim>\<open>p[p.rfind('/') + 1:]\<close>.\<close>

definition basename :: "string \<Rightarrow> string" where
  "basename p = drop (nat (rfind p CHR ''/'' + 1)) p"

text \<open>
  \<^verbatim>\<open>os.path.splitext\<close> of \<^verbatim>\<open>posixpath\<close> (\<^verbatim>\<open>genericpath._splitext\<close> with separator
  \<^verbatim>\<open>/\<close>): the extension starts at the last dot, if that dot comes after the last
  separator and some character between the two is not a dot.
\<close>

definition splitext :: "string \<Rightarrow> string \<times> string" where
  "splitext p =
     (let sepIndex = rfind p CHR ''/''; dotIndex = rfind p CHR ''.'' in
      if dotIndex > sepIndex \<and>
         (\<exists>c \<in> set (take (nat (dotIndex - (sepIndex + 1))) (drop (nat (sepIndex + 1)) p)).
            c \<noteq> CHR ''.'')
      then (take (nat dotIndex) p, drop (nat dotIndex) p)
      else (p, []))"

text \<open>\<^verbatim>\<open>os.path.join(a, b)\<close> of \<^verbatim>\<open>posixpath\<close> for two components.\<close>

definition path_join :: "string \<Rightarrow> string \<Rightarrow> string" where
  "path_join a b =
     (if startswith b ''/'' then b
      else if a = [] \<or> endswith a ''/'' then a @ b
      else a @ ''/'' @ b)"

text \<open>\<^verbatim>\<open>str.lower\<close> on Latin-1: A..Z and the accented capitals U+00C0..U+00DE except U+00D7.\<close>

definition lower_char :: "char \<Rightarrow> char" where
  "lower_char c = (let n = (of_char c :: nat) in
     if (65 \<le> n \<and> n \<le> 90) \<or> (192 \<le> n \<and> n \<le> 222 \<and> n \<noteq> 215)
     then char_of (n + 32) else c)"

definition lower :: "string \<Rightarrow> string" where
  "lower s = map lower_char s"

text \<open>\<^verbatim>\<open>re.match(r'^(\d{4})', raw)\<close>: group 1 of the match, or \<open>None\<close>.\<close>

definition match_year :: "string \<Rightarrow> string option" where
  "match_year raw =
     (if 4 \<le> length raw \<and> list_all isdigit (take 4 raw) then Some (take 4 raw) else None)"

subsection \<open>Filename fallback\<close>

text \<open>Lines 301-306, \<^verbatim>\<open>AutoTagger.parse_filename\<close>.\<close>

definition parse_filename :: "string \<Rightarrow> string \<times> string" where
  "parse_filename filepath =
     (let basename = fst (splitext (basename filepath)) in
      if contains '' - '' basename
      then (case split1 '' - '' basename of
              Some (l, r) \<Rightarrow> (strip l, strip r)
            | None \<Rightarrow> ([], basename))
      else ([], basename))"

text \<open>
  The fallback as the specification words it: split the extension-stripped basename on the
  first \<^verbatim>\<open>" - "\<close>, the left part is the artist and the remainder the title, unchanged.
\<close>

definition parse_filename_spec :: "string \<Rightarrow> string \<times> string" where
  "parse_filename_spec filepath =
     (let b = fst (splitext (basename filepath)) in
      case split1 '' - '' b of Some (l, r) \<Rightarrow> (l, r) | None \<Rightarrow> ([], b))"

subsection \<open>The tag container of mutagen\<close>

text \<open>
  An ID3 tag of mutagen is a dictionary of frames, each stored under its own
  \<^verbatim>\<open>HashKey\<close>: a text frame under its four-letter frame id, a picture frame under
  \<^verbatim>\<open>APIC:\<close> followed by its description. The model keeps the frames in a list (the
  dictionary in insertion order) and computes the key from the frame, so no frame can sit
  under a key that is not its own. Only the seven kinds of frame the program names are
  modelled; it never reads, adds or deletes a frame of another kind.

  A picture frame is \<open>APIC mime type desc data\<close>. A text frame holds a list of values.
  The values of \<^verbatim>\<open>TDRC\<close> are time stamps, the others hold plain strings.
  \<open>TimeStamp t\<close> is the object \<^verbatim>\<open>ID3TimeStamp(t)\<close> of mutagen, made from the text \<open>t\<close>.
\<close>

type_synonym byte = "8 word"

datatype text_id = TPE1 | TALB | TIT2 | TDRC | TRCK | TCON

datatype text_value = Plain string | TimeStamp string

datatype frame =
    TextFrame text_id "text_value list"
  | APIC string nat string "byte list"

fun FrameID :: "text_id \<Rightarrow> string" where
  "FrameID TPE1 = ''TPE1''"
| "FrameID TALB = ''TALB''"
| "FrameID TIT2 = ''TIT2''"
| "FrameID TDRC = ''TDRC''"
| "FrameID TRCK = ''TRCK''"
| "FrameID TCON = ''TCON''"

fun HashKey :: "frame \<Rightarrow> string" where
  "HashKey (TextFrame t vs) = FrameID t"
| "HashKey (APIC m ty d bs) = ''APIC:'' @ d"

type_synonym id3 = "frame list"

text \<open>\<^verbatim>\<open>tags[key]\<close> and \<^verbatim>\<open>key in tags\<close>: the frame stored under exactly this key.\<close>

definition getitem :: "id3 \<Rightarrow> string \<Rightarrow> frame option" where
  "getitem tags key = find (\<lambda>f. HashKey f = key) tags"

text \<open>
  \<^verbatim>\<open>ID3Tags.delall(key)\<close>: delete the frame stored under \<^verbatim>\<open>key\<close> if there is one,
  otherwise every frame whose key starts with \<^verbatim>\<open>key + ":"\<close>.
\<close>

definition delall :: "string \<Rightarrow> id3 \<Rightarrow> id3" where
  "delall key tags =
     (if getitem tags key \<noteq> None then filter (\<lambda>f. HashKey f \<noteq> key) tags
      else filter (\<lambda>f. \<not> startswith (HashKey f) (key @ '':'')) tags)"

text \<open>\<^verbatim>\<open>ID3Tags.add(frame)\<close>: \<^verbatim>\<open>tags[frame.HashKey] = frame\<close>.\<close>

definition add :: "frame \<Rightarrow> id3 \<Rightarrow> id3" where
  "add f tags =
     (if getitem tags (HashKey f) \<noteq> None
      then map (\<lambda>g. if HashKey g = HashKey f then f else g) tags
      else tags @ [f])"

text \<open>
  The frame constructors as the program calls them, \<^verbatim>\<open>TPE1(encoding=3, text=s)\<close>: a
  string given for \<^verbatim>\<open>text\<close> becomes a one-element list, and \<^verbatim>\<open>TDRC\<close> wraps it into a
  time stamp.
\<close>

definition new_text :: "text_id \<Rightarrow> string \<Rightarrow> frame" where
  "new_text t s = TextFrame t [if t = TDRC then TimeStamp s else Plain s]"

subsection \<open>The time stamps of mutagen\<close>

text \<open>
  \<^verbatim>\<open>ID3TimeStamp\<close> does not keep the text it is made from. Setting its \<^verbatim>\<open>text\<close> splits
  \<^verbatim>\<open>text + ':::::'\<close> at each of the characters \<^verbatim>\<open>-T:/.\<close> and at each run of white space
  (the pattern \<^verbatim>\<open>[-T:/.]|\s+\<close>), takes the first six pieces for year, month, day, hour,
  minute and second, and keeps \<^verbatim>\<open>int(piece)\<close> of each, or \<^verbatim>\<open>None\<close> where \<^verbatim>\<open>int\<close>
  raises. Reading \<^verbatim>\<open>text\<close> prints the parts up to the first \<^verbatim>\<open>None\<close>, the year with
  \<^verbatim>\<open>%04d\<close> and the others with \<^verbatim>\<open>%02d\<close>, each followed by its separator, and drops the
  last character.
\<close>

definition is_sep :: "char \<Rightarrow> bool" where
  "is_sep c = (c \<in> set ''-T:/.'')"

text \<open>
  \<^verbatim>\<open>re.split\<close> with that pattern: a separator character ends a piece, and so does a whole
  run of white space.
\<close>

function pieces :: "string \<Rightarrow> string list" where
  "pieces [] = [[]]"
| "pieces (c # cs) =
     (if is_sep c then [] # pieces cs
      else if isspace c then [] # pieces (dropWhile isspace cs)
      else (case pieces cs of p # ps \<Rightarrow> (c # p) # ps | [] \<Rightarrow> [[c]]))"
  by pat_completeness auto
termination
  by (relation "measure length") (auto simp add: le_imp_less_Suc length_dropWhile_le)

text \<open>
  \<^verbatim>\<open>int(s)\<close> for a text without white space: an optional sign, then decimal digits with
  single underscores allowed between them; \<open>None\<close> is \<^verbatim>\<open>ValueError\<close>. (The bound that
  recent versions of Python put on the number of digits is left out.)
\<close>

definition digit_val :: "char \<Rightarrow> nat" where
  "digit_val c = of_char c - 48"

fun more_digits :: "nat \<Rightarrow> string \<Rightarrow> nat option" where
  "more_digits acc [] = Some acc"
| "more_digits acc [c] = (if isdigit c then Some (acc * 10 + digit_val c) else None)"
| "more_digits acc (c # d # cs) =
     (if isdigit c then more_digits (acc * 10 + digit_val c) (d # cs)
      else if c = CHR ''_'' \<and> isdigit d then more_digits (acc * 10 + digit_val d) cs
      else None)"

definition unsigned :: "string \<Rightarrow> nat option" where
  "unsigned s = (case s of [] \<Rightarrow> None
     | c # cs \<Rightarrow> if isdigit c then more_digits (digit_val c) cs else None)"

definition py_int :: "string \<Rightarrow> int option" where
  "py_int s = (case s of
       [] \<Rightarrow> None
     | c # cs \<Rightarrow>
         if c = CHR ''+'' then map_option int (unsigned cs)
         else if c = CHR ''-'' then map_option (\<lambda>n. - int n) (unsigned cs)
         else map_option int (unsigned (c # cs)))"

text \<open>\<^verbatim>\<open>'%d' % n\<close> for a natural number, and \<^verbatim>\<open>'%0wd' % v\<close> for an integer.\<close>

fun digits_of :: "nat \<Rightarrow> string" where
  "digits_of n =
     (if n < 10 then [''0123456789'' ! n]
      else digits_of (n div 10) @ [''0123456789'' ! (n mod 10)])"

declare digits_of.simps [simp del]

definition zero_padded :: "nat \<Rightarrow> int \<Rightarrow> string" where
  "zero_padded w v =
     (if v < 0
      then CHR ''-'' # replicate (w - 1 - length (digits_of (nat (- v)))) CHR ''0''
             @ digits_of (nat (- v))
      else replicate (w - length (digits_of (nat v))) CHR ''0'' @ digits_of (nat v))"

text \<open>The loop of \<^verbatim>\<open>get_text\<close> over the parts, each with its width and separator.\<close>

fun printed_parts :: "(nat \<times> char) list \<Rightarrow> int option list \<Rightarrow> string" where
  "printed_parts ((w, sep) # fs) (Some v # vs) = zero_padded w v @ sep # printed_parts fs vs"
| "printed_parts fs vs = []"

definition stamp_parts :: "string \<Rightarrow> int option list" where
  "stamp_parts text = map py_int (take 6 (pieces (text @ '':::::'')))"

definition stamp_text :: "string \<Rightarrow> string" where
  "stamp_text text =
     butlast (printed_parts
       [(4, CHR ''-''), (2, CHR ''-''), (2, CHR '' ''), (2, CHR '':''), (2, CHR '':''),
        (2, CHR ''x'')]
       (stamp_parts text))"

subsection \<open>Files, folders and the network\<close>

text \<open>
  What is on disk at a path. \<open>contents\<close> is what mutagen finds there when it opens the
  file: a tag, given as opening returns it; no ID3 header; or something it cannot read (no
  file, or no MP3 file), on which \<^verbatim>\<open>MP3(path)\<close> raises. \<open>locked\<close> says that
  \<^verbatim>\<open>audio.save\<close> raises on this file. \<open>id3v1\<close> says that the file ends with an ID3v1
  tag, and \<open>id3v2_version\<close> is the version of the ID3v2 tag it holds, if it holds one.
\<close>

datatype contents = Tagged id3 | NoHeader | Unreadable

record mp3file =
  contents :: contents
  locked :: bool
  id3v1 :: bool
  id3v2_version :: "nat option"

text \<open>
  \<^verbatim>\<open>MP3(path, ID3=ID3)\<close>. For a file without ID3 header mutagen catches
  \<^verbatim>\<open>ID3NoHeaderError\<close> itself and returns an object whose \<^verbatim>\<open>tags\<close> is \<^verbatim>\<open>None\<close>, so
  of the two kinds of exception that the handlers of the program tell apart only the
  other one is ever raised.
\<close>

datatype open_error = ID3NoHeaderError | OtherError

definition MP3 :: "mp3file \<Rightarrow> open_error + id3 option" where
  "MP3 f = (case contents f of
       Tagged tags \<Rightarrow> Inr (Some tags)
     | NoHeader \<Rightarrow> Inr None
     | Unreadable \<Rightarrow> Inl OtherError)"

text \<open>
  JSON values as \<^verbatim>\<open>resp.json()\<close> returns them (numbers restricted to integers; an
  object is the list of its items, with the keys all different as in a dictionary), and the
  operations of Python the lookups apply to them. \<open>None\<close> is a raised exception.
\<close>

datatype json =
    JNull | JBool bool | JNum int | JStr string
  | JArr "json list" | JObj "(string \<times> json) list"

fun truthy :: "json \<Rightarrow> bool" where
  "truthy JNull = False"
| "truthy (JBool b) = b"
| "truthy (JNum n) = (n \<noteq> 0)"
| "truthy (JStr s) = (s \<noteq> [])"
| "truthy (JArr xs) = (xs \<noteq> [])"
| "truthy (JObj kvs) = (kvs \<noteq> [])"

text \<open>\<^verbatim>\<open>d.get(k, default)\<close>: an attribute of dictionaries only.\<close>

fun py_get :: "json \<Rightarrow> string \<Rightarrow> json \<Rightarrow> json option" where
  "py_get (JObj kvs) k dflt = Some (case map_of kvs k of Some v \<Rightarrow> v | None \<Rightarrow> dflt)"
| "py_get _ k dflt = None"

text \<open>\<^verbatim>\<open>d[k]\<close> for a string \<^verbatim>\<open>k\<close>: only a dictionary that has the key answers.\<close>

fun py_item :: "json \<Rightarrow> string \<Rightarrow> json option" where
  "py_item (JObj kvs) k = map_of kvs k"
| "py_item _ k = None"

text \<open>\<^verbatim>\<open>x[0]\<close>: the first element of a list, the first character of a string.\<close>

fun py_first :: "json \<Rightarrow> json option" where
  "py_first (JArr (x # xs)) = Some x"
| "py_first (JStr (c # cs)) = Some (JStr [c])"
| "py_first _ = None"

text \<open>\<^verbatim>\<open>k in d\<close> as the program uses it, on a value known to be a dictionary.\<close>

fun py_has :: "json \<Rightarrow> string \<Rightarrow> bool" where
  "py_has (JObj kvs) k = (map_of kvs k \<noteq> None)"
| "py_has _ k = False"

text \<open>
  The three requests the program sends, by what distinguishes their URLs: the recording
  search (artist, title), the release search (album, artist), the front cover of a release
  (the identifier as the release search gave it).
\<close>

datatype request =
    RecordingSearch string string
  | ReleaseSearch string string
  | CoverFront json

text \<open>
  A response: its status code, \<^verbatim>\<open>resp.json()\<close> (\<open>None\<close> when the body is not JSON) and
  its raw content.
\<close>

record response =
  status_code :: nat
  json_body :: "json option"
  content :: "byte list"

text \<open>
  Everything outside the application object. \<open>listdir\<close> is \<^verbatim>\<open>os.listdir\<close> (\<open>None\<close>: it
  raises), \<open>net\<close> answers \<^verbatim>\<open>requests.get\<close> (\<open>None\<close>: it raises), \<open>requests\<close> lists the
  requests sent so far and \<open>printed\<close> the lines written by \<^verbatim>\<open>print\<close>.

  \<open>genre_names\<close> is \<^verbatim>\<open>TCON.genres\<close> of the mutagen installed, for one genre text:
  the names the text stands for. A name stands for itself; a number, alone or in
  parentheses, stands for the name at that place of the library's table of genres. The
  table is not part of the program, so the function is taken from the world.
\<close>

record world =
  files :: "string \<Rightarrow> mp3file"
  listdir :: "string \<Rightarrow> string list option"
  net :: "request \<Rightarrow> response option"
  requests :: "request list"
  printed :: "string list"
  genre_names :: "string \<Rightarrow> string list"

subsection \<open>The application object\<close>

text \<open>
  The message boxes carry their title and their fixed text; the text of the exception that
  some of them append is left out. The status line is one constructor per message.
\<close>

datatype msgbox =
    Critical string string
  | Warning string string
  | Information string string

datatype status =
    Ready
  | Loaded string
  | Folder string
  | AutoFetched
  | ArtFetched
  | TagsSaved
  | SavedFor nat

record app =
  current_file :: "string option"
  current_folder :: "string option"
  album_art_bytes :: "byte list option"
  id3_version :: nat
  artist_edit :: string
  album_edit :: string
  title_edit :: string
  year_edit :: string
  track_edit :: string
  genre_edit :: string
  btn_auto_fetch :: bool
  status_label :: status
  boxes :: "msgbox list"

text \<open>Python's truth value of an optional string or byte string: \<^verbatim>\<open>None\<close> and empty are false.\<close>

fun nonempty :: "'a list option \<Rightarrow> bool" where
  "nonempty None = False"
| "nonempty (Some xs) = (xs \<noteq> [])"

definition show_box :: "msgbox \<Rightarrow> app \<Rightarrow> app" where
  "show_box b s = s\<lparr>boxes := boxes s @ [b]\<rparr>"

text \<open>Lines 190-191. \<^verbatim>\<open>[1, 3, 4][index]\<close> counts a negative index from the end.\<close>

definition on_id3_version_change :: "int \<Rightarrow> app \<Rightarrow> app option" where
  "on_id3_version_change index s =
     (let j = (if index < 0 then 3 + index else index) in
      if 0 \<le> j \<and> j < 3 then Some (s\<lparr>id3_version := [1, 3, 4] ! nat j\<rparr>) else None)"

subsection \<open>Reading the tags\<close>

text \<open>
  \<^verbatim>\<open>audio.get(key)\<close> and \<^verbatim>\<open>key in audio\<close>: an object without tags has no key.
\<close>

definition audio_get :: "id3 option \<Rightarrow> string \<Rightarrow> frame option" where
  "audio_get audio key = (case audio of None \<Rightarrow> None | Some tags \<Rightarrow> getitem tags key)"

text \<open>
  Lines 267-279, the local function \<^verbatim>\<open>get_tag\<close> of \<^verbatim>\<open>load_tags\<close>. \<open>raw_of\<close> is lines
  272-275: the \<^verbatim>\<open>text\<close> of a time stamp, which mutagen prints from its parts, or the
  string itself.
\<close>

fun raw_of :: "text_value \<Rightarrow> string" where
  "raw_of (TimeStamp t) = stamp_text t"
| "raw_of (Plain t) = t"

definition get_tag :: "id3 option \<Rightarrow> string \<Rightarrow> string" where
  "get_tag audio tag_key =
     (case audio_get audio tag_key of
        None \<Rightarrow> []
      | Some (APIC m ty d bs) \<Rightarrow> []
      | Some (TextFrame t []) \<Rightarrow> []
      | Some (TextFrame t (v # vs)) \<Rightarrow>
          (let raw = raw_of v in
           if tag_key = ''TDRC''
           then (case match_year raw of Some y \<Rightarrow> y | None \<Rightarrow> raw)
           else raw))"

text \<open>Lines 258-298, \<^verbatim>\<open>AutoTagger.load_tags\<close> (the pixmap shown is left out).\<close>

definition load_tags :: "app \<Rightarrow> world \<Rightarrow> app" where
  "load_tags s w =
     (if \<not> nonempty (current_file s) then s
      else case MP3 (files w (the (current_file s))) of
        Inl e \<Rightarrow> show_box (Critical ''Error'' ''Failed to read file:'') s
      | Inr audio \<Rightarrow>
          s\<lparr>artist_edit := get_tag audio ''TPE1'',
            album_edit := get_tag audio ''TALB'',
            title_edit := get_tag audio ''TIT2'',
            year_edit := get_tag audio ''TDRC'',
            track_edit := get_tag audio ''TRCK'',
            genre_edit := get_tag audio ''TCON'',
            album_art_bytes :=
              (case audio_get audio ''APIC:'' of
                 Some (APIC m ty d bs) \<Rightarrow> Some bs
               | _ \<Rightarrow> None)\<rparr>)"

text \<open>Lines 247-256, 222-227 and 229-234: choosing the target.\<close>

definition clear_fields :: "app \<Rightarrow> app" where
  "clear_fields s =
     s\<lparr>artist_edit := [], album_edit := [], title_edit := [], year_edit := [],
       track_edit := [], genre_edit := [], album_art_bytes := None\<rparr>"

definition load_single_file :: "string \<Rightarrow> app \<Rightarrow> world \<Rightarrow> app" where
  "load_single_file path s w =
     (load_tags (s\<lparr>current_file := Some path, current_folder := None\<rparr>) w)
       \<lparr>btn_auto_fetch := True, status_label := Loaded (basename path)\<rparr>"

definition load_folder_path :: "string \<Rightarrow> app \<Rightarrow> app" where
  "load_folder_path path s =
     (clear_fields (s\<lparr>current_folder := Some path, current_file := None\<rparr>))
       \<lparr>btn_auto_fetch := False, status_label := Folder (basename path)\<rparr>"

subsection \<open>Writing the tags\<close>

text \<open>Lines 420-422: \<^verbatim>\<open>delall\<close> for each of the seven frame ids in turn.\<close>

definition clear_tags :: "id3 \<Rightarrow> id3" where
  "clear_tags tags =
     fold delall [''TPE1'', ''TALB'', ''TIT2'', ''TDRC'', ''TRCK'', ''TCON'', ''APIC''] tags"

text \<open>Lines 424-436: one frame for each edit field whose text is not empty.\<close>

definition add_text :: "text_id \<Rightarrow> string \<Rightarrow> id3 \<Rightarrow> id3" where
  "add_text t s tags = (if s \<noteq> [] then add (new_text t s) tags else tags)"

definition set_new_tags :: "app \<Rightarrow> id3 \<Rightarrow> id3" where
  "set_new_tags s tags =
     add_text TCON (genre_edit s)
       (add_text TRCK (track_edit s)
         (add_text TDRC (year_edit s)
           (add_text TIT2 (title_edit s)
             (add_text TALB (album_edit s)
               (add_text TPE1 (artist_edit s) tags)))))"

text \<open>Lines 438-449: the picture frame, with the mime type read off the PNG signature.\<close>

definition png_signature :: "byte list" where
  "png_signature = [0x89, 0x50, 0x4E, 0x47, 0x0D, 0x0A, 0x1A, 0x0A]"

definition embed_art :: "app \<Rightarrow> id3 \<Rightarrow> id3" where
  "embed_art s tags =
     (if nonempty (album_art_bytes s)
      then (let bs = the (album_art_bytes s);
                mime = (if startswith bs png_signature then ''image/png'' else ''image/jpeg'')
            in add (APIC mime 3 ''Cover'' bs) tags)
      else tags)"

text \<open>Lines 420-449 together: what the tag holds when it is saved.\<close>

definition new_tags :: "app \<Rightarrow> id3 \<Rightarrow> id3" where
  "new_tags s audio = embed_art s (set_new_tags s (clear_tags audio))"

text \<open>
  What mutagen makes of a frame between \<^verbatim>\<open>audio.save\<close> and the next opening of the file.
  A text frame whose text is empty is not written. The text of a time stamp is written
  with \<^verbatim>\<open>T\<close> for the blank, and the time stamp is made anew from that on opening. On
  opening, the text of \<^verbatim>\<open>TCON\<close> is replaced by the genre names it stands for. The
  equations are for the frames the program builds, which have one value; a frame of
  another shape is left as it is.
\<close>

definition T_for_blank :: "string \<Rightarrow> string" where
  "T_for_blank s = map (\<lambda>c. if c = CHR '' '' then CHR ''T'' else c) s"

fun stored :: "(string \<Rightarrow> string list) \<Rightarrow> frame \<Rightarrow> frame option" where
  "stored g (TextFrame t [TimeStamp x]) =
     (if stamp_text x = [] then None
      else Some (TextFrame t [TimeStamp (T_for_blank (stamp_text x))]))"
| "stored g (TextFrame t [Plain x]) =
     (if x = [] then None
      else if t = TCON then Some (TextFrame t (map Plain (g x)))
      else Some (TextFrame t [Plain x]))"
| "stored g f = Some f"

definition reopened :: "(string \<Rightarrow> string list) \<Rightarrow> id3 \<Rightarrow> id3" where
  "reopened g tags = List.map_filter (stored g) tags"

text \<open>
  \<^verbatim>\<open>audio.save(v1=v1, v2_version=v2_version)\<close> when it does not raise: the ID3v2 tag is
  written in the version asked for; an ID3v1 tag is removed for \<^verbatim>\<open>v1=0\<close>, rewritten if
  the file has one and not created otherwise for \<^verbatim>\<open>v1=1\<close>, and written for \<^verbatim>\<open>v1=2\<close>.
\<close>

definition audio_save :: "nat \<Rightarrow> nat \<Rightarrow> (string \<Rightarrow> string list) \<Rightarrow> id3 \<Rightarrow> mp3file \<Rightarrow> mp3file" where
  "audio_save v1 v2_version g tags f =
     f\<lparr>contents := Tagged (reopened g tags),
       id3v1 := (if v1 = 0 then False else if v1 = 1 then id3v1 f else True),
       id3v2_version := Some v2_version\<rparr>"

text \<open>
  How a method ends: it returns, or an exception that nothing catches leaves it. Either
  way the session and the world are as the method has made them by then.
\<close>

datatype exn = AttributeError | OSError

datatype run =
    Returned (app_of: app) (world_of: world)
  | Raised exn (app_of: app) (world_of: world)

text \<open>
  Lines 409-460, \<^verbatim>\<open>AutoTagger._save_single_file\<close>. The handler of line 413 is kept,
  though \<open>MP3\<close> never raises \<^verbatim>\<open>ID3NoHeaderError\<close>: a file without header is opened with
  \<^verbatim>\<open>tags\<close> being \<^verbatim>\<open>None\<close>, and \<^verbatim>\<open>audio.tags.delall\<close> of line 422, outside every
  \<^verbatim>\<open>try\<close>, raises \<^verbatim>\<open>AttributeError\<close> on it. A save that raises leaves the file as it was
  and shows the box \<^verbatim>\<open>Save Error\<close>; the reload of line 459 follows in either case.
\<close>

definition save_single_file :: "string \<Rightarrow> bool \<Rightarrow> app \<Rightarrow> world \<Rightarrow> run" where
  "save_single_file filepath suppress_reload s w =
     (let f = files w filepath;
          opened = (case MP3 f of
                      Inr audio \<Rightarrow> Some audio
                    | Inl ID3NoHeaderError \<Rightarrow> Some (Some [])
                    | Inl OtherError \<Rightarrow> None)
      in case opened of
        None \<Rightarrow> Returned s (w\<lparr>printed := printed w @ [''Skip '' @ filepath]\<rparr>)
      | Some None \<Rightarrow> Raised AttributeError s w
      | Some (Some audio) \<Rightarrow>
          (let tags = new_tags s audio;
               v1 = (if id3_version s = 1 then 1 else 0);
               v2_version = (if id3_version s \<noteq> 1 then id3_version s else 3);
               (s1, w1) =
                 (if locked f
                  then (show_box (Critical ''Save Error''
                                   (''Failed to save '' @ basename filepath @ '':'')) s, w)
                  else (s, w\<lparr>files := (files w)(filepath :=
                               audio_save v1 v2_version (genre_names w) tags f)\<rparr>))
           in if \<not> suppress_reload \<and> current_file s1 = Some filepath
              then Returned (load_tags s1 w1) w1
              else Returned s1 w1))"

text \<open>
  Lines 390-407, \<^verbatim>\<open>AutoTagger.save_tags\<close>. The loop of lines 403-404 ends with the first
  call that raises; \<^verbatim>\<open>os.listdir\<close> may raise too, and nothing catches it.
\<close>

definition is_mp3 :: "string \<Rightarrow> bool" where
  "is_mp3 f = endswith (lower f) ''.mp3''"

fun save_all :: "string list \<Rightarrow> app \<Rightarrow> world \<Rightarrow> run" where
  "save_all [] s w = Returned s w"
| "save_all (mp3 # mp3_files) s w =
     (case save_single_file mp3 True s w of
        Returned s1 w1 \<Rightarrow> save_all mp3_files s1 w1
      | Raised e s1 w1 \<Rightarrow> Raised e s1 w1)"

definition save_tags :: "app \<Rightarrow> world \<Rightarrow> run" where
  "save_tags s w =
     (if nonempty (current_file s)
      then (case save_single_file (the (current_file s)) False s w of
              Returned s1 w1 \<Rightarrow> Returned (s1\<lparr>status_label := TagsSaved\<rparr>) w1
            | Raised e s1 w1 \<Rightarrow> Raised e s1 w1)
      else if nonempty (current_folder s)
      then (case listdir w (the (current_folder s)) of
              None \<Rightarrow> Raised OSError s w
            | Some names \<Rightarrow>
                (let mp3_files = map (path_join (the (current_folder s))) (filter is_mp3 names)
                 in if mp3_files = []
                    then Returned (show_box (Warning ''No MP3s'' ''No MP3 files found in folder.'') s) w
                    else (case save_all mp3_files s w of
                            Returned s1 w1 \<Rightarrow>
                              Returned (s1\<lparr>status_label := SavedFor (length mp3_files)\<rparr>) w1
                          | Raised e s1 w1 \<Rightarrow> Raised e s1 w1)))
      else Returned (show_box (Warning ''No Target'' ''Load a file or folder first.'') s) w)"

subsection \<open>Lookups on MusicBrainz\<close>

definition http_get :: "request \<Rightarrow> world \<Rightarrow> response option \<times> world" where
  "http_get r w = (net w r, w\<lparr>requests := requests w @ [r]\<rparr>)"

text \<open>
  Lines 330-343: the new field values computed from the top recording. The artist, album
  and title are still values of the response; the year is a string already.
\<close>

definition recording_info ::
  "json \<Rightarrow> string \<Rightarrow> string \<Rightarrow> string \<Rightarrow> (json \<times> json \<times> json \<times> string) option" where
  "recording_info rec artist album year = do {
     credit \<leftarrow> py_get rec ''artist-credit'' JNull;
     new_artist \<leftarrow>
       (if truthy credit
        then do { c \<leftarrow> py_item rec ''artist-credit''; c0 \<leftarrow> py_first c; py_item c0 ''name'' }
        else Some (JStr artist));
     new_title \<leftarrow> py_item rec ''title'';
     rels \<leftarrow> py_get rec ''releases'' JNull;
     if truthy rels
     then do {
       r \<leftarrow> py_item rec ''releases'';
       release \<leftarrow> py_first r;
       new_album \<leftarrow> py_get release ''title'' (JStr album);
       new_year \<leftarrow>
         (if py_has release ''date''
          then do {
            d \<leftarrow> py_item release ''date'';
            (case d of
               JStr ds \<Rightarrow> Some (case match_year ds of Some y \<Rightarrow> y | None \<Rightarrow> year)
             | _ \<Rightarrow> None) }
          else Some year);
       Some (new_artist, new_album, new_title, new_year) }
     else Some (new_artist, JStr album, new_title, year) }"

text \<open>
  Lines 345-350: \<^verbatim>\<open>setText\<close> in the order of the source. It accepts a string only, so a
  value of another type raises after the fields before it have been set; the flag says
  whether all five went through.
\<close>

definition set_fields :: "json \<times> json \<times> json \<times> string \<Rightarrow> app \<Rightarrow> app \<times> bool" where
  "set_fields new s =
     (case new of (new_artist, new_album, new_title, new_year) \<Rightarrow>
        (case new_artist of
           JStr a \<Rightarrow>
             (let s1 = s\<lparr>artist_edit := a\<rparr> in
              case new_album of
                JStr b \<Rightarrow>
                  (let s2 = s1\<lparr>album_edit := b\<rparr> in
                   case new_title of
                     JStr t \<Rightarrow>
                       (s2\<lparr>title_edit := t, year_edit := new_year,
                           track_edit := track_edit s, status_label := AutoFetched\<rparr>, True)
                   | _ \<Rightarrow> (s2, False))
              | _ \<Rightarrow> (s1, False))
         | _ \<Rightarrow> (s, False)))"

text \<open>The text of \<^verbatim>\<open>data["recordings"][0]\<close> and of \<^verbatim>\<open>data["releases"][0]["id"]\<close>.\<close>

definition top_of :: "json \<Rightarrow> string \<Rightarrow> json option" where
  "top_of data k = do { xs \<leftarrow> py_item data k; py_first xs }"

definition fetch_error :: msgbox where
  "fetch_error = Critical ''Fetch Error'' ''Auto-fetch failed:''"

text \<open>
  Lines 311-316: the artist and title to search for, the stripped edit fields with the
  parsed file name standing in for an empty one.
\<close>

definition search_terms :: "app \<Rightarrow> string \<times> string" where
  "search_terms s =
     (let artist = strip (artist_edit s);
          title = strip (title_edit s)
      in if \<not> (artist \<noteq> [] \<and> title \<noteq> [])
         then (let (fn_artist, fn_title) = parse_filename (the (current_file s))
               in (if artist \<noteq> [] then artist else fn_artist,
                   if title \<noteq> [] then title else fn_title))
         else (artist, title))"

text \<open>Lines 308-353, \<^verbatim>\<open>AutoTagger.auto_fetch_info\<close>.\<close>

definition auto_fetch_info :: "app \<Rightarrow> world \<Rightarrow> app \<times> world" where
  "auto_fetch_info s w =
     (if \<not> nonempty (current_file s) then (s, w)
      else
        (let (artist, title) = search_terms s
         in if artist = [] \<or> title = []
            then (show_box (Warning ''Not Enough Info'' ''Need Artist and Title to search.'') s, w)
            else
              (let (resp, w1) = http_get (RecordingSearch artist title) w
               in case Option.bind resp json_body of
                    None \<Rightarrow> (show_box fetch_error s, w1)
                  | Some data \<Rightarrow>
                      (case py_get data ''recordings'' JNull of
                         None \<Rightarrow> (show_box fetch_error s, w1)
                       | Some recs \<Rightarrow>
                           if \<not> truthy recs
                           then (show_box (Information ''No Match''
                                   ''No recording found on MusicBrainz.'') s, w1)
                           else
                             (case Option.bind (top_of data ''recordings'')
                                     (\<lambda>rec. recording_info rec artist (album_edit s) (year_edit s)) of
                                None \<Rightarrow> (show_box fetch_error s, w1)
                              | Some new \<Rightarrow>
                                  (let (s1, ok) = set_fields new s
                                   in if ok then (s1, w1)
                                      else (show_box fetch_error s1, w1)))))))"

definition art_error :: msgbox where
  "art_error = Critical ''Error'' ''Failed to fetch album art:''"

text \<open>Lines 355-387, \<^verbatim>\<open>AutoTagger.fetch_album_art\<close> (the pixmap shown is left out).\<close>

definition fetch_album_art :: "app \<Rightarrow> world \<Rightarrow> app \<times> world" where
  "fetch_album_art s w =
     (if nonempty (current_folder s)
      then (show_box (Warning ''Folder Mode'' ''Load a single file to fetch album art.'') s, w)
      else
        (let artist = strip (artist_edit s);
             album = strip (album_edit s)
         in if artist = [] \<or> album = []
            then (show_box (Warning ''Missing Info'' ''Enter Artist and Album.'') s, w)
            else
              (let (resp, w1) = http_get (ReleaseSearch album artist) w
               in case Option.bind resp json_body of
                    None \<Rightarrow> (show_box art_error s, w1)
                  | Some data \<Rightarrow>
                      (case py_get data ''releases'' JNull of
                         None \<Rightarrow> (show_box art_error s, w1)
                       | Some rels \<Rightarrow>
                           if \<not> truthy rels
                           then (show_box (Information ''Not Found'' ''No release found.'') s, w1)
                           else
                             (case Option.bind (top_of data ''releases'') (\<lambda>r. py_item r ''id'') of
                                None \<Rightarrow> (show_box art_error s, w1)
                              | Some mbid \<Rightarrow>
                                  (let (img_resp, w2) = http_get (CoverFront mbid) w1
                                   in case img_resp of
                                        None \<Rightarrow> (show_box art_error s, w2)
                                      | Some img \<Rightarrow>
                                          if status_code img = 200
                                          then (s\<lparr>album_art_bytes := Some (content img),
                                                  status_label := ArtFetched\<rparr>, w2)
                                          else (show_box (Information ''No Art''
                                                  ''No album art available.'') s, w2)))))))"

subsection \<open>Notions used in the statements\<close>


text \<open>
  The object as \<^verbatim>\<open>__init__\<close> leaves it (lines 101-105; the genre box shows the first of
  the genres added to it in line 154), and a world with no files, in which every genre
  text stands for itself, as the genre names used below do.
\<close>

definition init_app :: app where
  "init_app =
     \<lparr>current_file = None, current_folder = None, album_art_bytes = None, id3_version = 3,
      artist_edit = [], album_edit = [], title_edit = [], year_edit = [], track_edit = [],
      genre_edit = ''Acoustic'', btn_auto_fetch = False, status_label = Ready, boxes = []\<rparr>"

definition no_file :: mp3file where
  "no_file = \<lparr>contents = Unreadable, locked = False, id3v1 = False, id3v2_version = None\<rparr>"

definition empty_world :: world where
  "empty_world =
     \<lparr>files = (\<lambda>p. no_file), listdir = (\<lambda>d. None), net = (\<lambda>r. None),
      requests = [], printed = [], genre_names = (\<lambda>g. [g])\<rparr>"

text \<open>
  A file with an empty ID3v2.4 tag and no ID3v1 tag, and a session on it with all six
  fields filled in and a cover image (the first bytes of a JPEG file).
\<close>

definition blank_file :: mp3file where
  "blank_file = \<lparr>contents = Tagged [], locked = False, id3v1 = False, id3v2_version = Some 4\<rparr>"

definition cover_app :: app where
  "cover_app =
     init_app\<lparr>current_file := Some ''/m/a.mp3'', artist_edit := ''A'', album_edit := ''B'',
       title_edit := ''C'', year_edit := ''2003-05-12'', track_edit := ''1'',
       genre_edit := ''Rock'', album_art_bytes := Some [0xFF, 0xD8, 0xFF]\<rparr>"

definition cover_world :: world where
  "cover_world = empty_world\<lparr>files := (files empty_world)(''/m/a.mp3'' := blank_file)\<rparr>"

text \<open>A file whose tag holds one picture frame, as \<^verbatim>\<open>_save_single_file\<close> writes it.\<close>

definition art_world :: world where
  "art_world =
     empty_world\<lparr>files := (files empty_world)(''/m/a.mp3'' :=
       blank_file\<lparr>contents := Tagged [APIC ''image/jpeg'' 3 ''Cover'' [0xFF, 0xD8, 0xFF]]\<rparr>)\<rparr>"

text \<open>
  A folder of two files, the first of which cannot be saved, and a session on the folder.
\<close>

definition batch_world :: world where
  "batch_world =
     empty_world\<lparr>
       files := (files empty_world)
         (''/m/a.mp3'' := blank_file\<lparr>locked := True\<rparr>, ''/m/b.mp3'' := blank_file),
       listdir := (listdir empty_world)(''/m'' := Some [''a.mp3'', ''notes.txt'', ''b.mp3''])\<rparr>"

definition batch_app :: app where
  "batch_app = (load_folder_path ''/m'' init_app)\<lparr>artist_edit := ''A''\<rparr>"

text \<open>The frames that are text frames.\<close>

fun is_text :: "frame \<Rightarrow> bool" where
  "is_text (TextFrame t vs) = True"
| "is_text (APIC m ty d bs) = False"



text \<open>
  What a save of the session's tags leaves of a file, and the files such a save goes
  through on: those that open with a tag and do not refuse the save.
\<close>

definition saved_file :: "app \<Rightarrow> world \<Rightarrow> mp3file \<Rightarrow> mp3file" where
  "saved_file s w f =
     audio_save (if id3_version s = 1 then 1 else 0)
       (if id3_version s \<noteq> 1 then id3_version s else 3)
       (genre_names w) (new_tags s []) f"

definition writable :: "mp3file \<Rightarrow> bool" where
  "writable f = (case contents f of Tagged tags \<Rightarrow> \<not> locked f | _ \<Rightarrow> False)"

text \<open>
  A session on a file with artist, album, title, year and track filled in, and a network
  whose answers depend on the title and the album asked for: no recording for title
  \<^verbatim>\<open>T\<close>, a recording without releases for \<^verbatim>\<open>U\<close>, otherwise a recording whose
  release has a date that does not start with a year; no release for album \<^verbatim>\<open>B\<close>,
  otherwise a release whose cover is answered with status 404.
\<close>

definition lookup_app :: app where
  "lookup_app =
     init_app\<lparr>current_file := Some ''/m/a.mp3'', artist_edit := ''A'', album_edit := ''B'',
       title_edit := ''T'', year_edit := ''1999'', track_edit := ''7''\<rparr>"

definition json_response :: "json \<Rightarrow> response" where
  "json_response j = \<lparr>status_code = 200, json_body = Some j, content = []\<rparr>"

definition lookup_net :: "request \<Rightarrow> response option" where
  "lookup_net r =
     (case r of
        RecordingSearch a t \<Rightarrow>
          if t = ''T'' then Some (json_response (JObj [(''recordings'', JArr [])]))
          else if t = ''U'' then Some (json_response (JObj [(''recordings'',
                 JArr [JObj [(''title'', JStr ''U2''), (''releases'', JArr [])]])]))
          else Some (json_response (JObj [(''recordings'',
                 JArr [JObj [(''title'', JStr ''V2''),
                             (''releases'', JArr [JObj [(''title'', JStr ''Alb''),
                                                         (''date'', JStr ''May 2003'')]])]])]))
      | ReleaseSearch al ar \<Rightarrow>
          if al = ''B'' then Some (json_response (JObj [(''releases'', JArr [])]))
          else Some (json_response (JObj [(''releases'', JArr [JObj [(''id'', JStr ''x'')]])]))
      | CoverFront i \<Rightarrow> Some \<lparr>status_code = 404, json_body = None, content = []\<rparr>)"

definition lookup_world :: world where
  "lookup_world = empty_world\<lparr>net := lookup_net\<rparr>"

section \<open>Properties\<close>

subsection \<open>Splitting at the first separator\<close>

lemma startswith_append: "startswith (sep @ r) sep"
  by (simp add: startswith_def)

lemma split1_append: "split1 sep s = Some (l, r) \<Longrightarrow> s = l @ sep @ r"
proof (induction s arbitrary: l)
  case Nil
  then show ?case by (simp split: if_splits)
next
  case (Cons c cs)
  show ?case
  proof (cases "startswith (c # cs) sep")
    case True
    with Cons.prems have "l = []" "r = drop (length sep) (c # cs)" by simp_all
    moreover from True have "take (length sep) (c # cs) = sep" by (simp add: startswith_def)
    ultimately show ?thesis by (metis append_Nil append_take_drop_id)
  next
    case False
    with Cons.prems obtain l0 where "split1 sep cs = Some (l0, r)" "l = c # l0"
      by auto
    with Cons.IH show ?thesis by simp
  qed
qed

lemma split1_first:
  "split1 sep s = Some (l, r) \<Longrightarrow> s = l' @ sep @ r' \<Longrightarrow> length l \<le> length l'"
proof (induction s arbitrary: l l')
  case Nil
  then show ?case by (simp split: if_splits)
next
  case (Cons c cs)
  show ?case
  proof (cases "startswith (c # cs) sep")
    case True
    with Cons.prems(1) have "l = []" by simp
    then show ?thesis by simp
  next
    case False
    with Cons.prems(1) obtain l0 where l0: "split1 sep cs = Some (l0, r)" "l = c # l0"
      by auto
    have "l' \<noteq> []"
    proof
      assume "l' = []"
      with Cons.prems(2) have "startswith (c # cs) sep" by (simp add: startswith_def)
      with False show False by simp
    qed
    then obtain l1 where l1: "l' = c # l1" "cs = l1 @ sep @ r'"
      using Cons.prems(2) by (cases l') auto
    from Cons.IH[OF l0(1) l1(2)] l0(2) l1(1) show ?thesis by simp
  qed
qed

lemma split1_total: "split1 sep (l @ sep @ r) \<noteq> None"
proof (induction l)
  case Nil
  show ?case
  proof (cases "sep @ r")
    case Nil
    then show ?thesis by simp
  next
    case (Cons a list)
    have "startswith (sep @ r) sep" by (rule startswith_append)
    with Cons show ?thesis by simp
  qed
next
  case (Cons c l)
  then show ?case by auto
qed

lemma contains_split1: "contains sep s = (split1 sep s \<noteq> None)"
  by (induction s) auto

lemma contains_iff: "contains sep s = (\<exists>l r. s = l @ sep @ r)"
proof
  assume "contains sep s"
  then obtain l r where "split1 sep s = Some (l, r)" by (auto simp: contains_split1)
  then show "\<exists>l r. s = l @ sep @ r" using split1_append by blast
next
  assume "\<exists>l r. s = l @ sep @ r"
  then show "contains sep s" using split1_total by (auto simp: contains_split1)
qed

lemmas path_eval =
  parse_filename_def parse_filename_spec_def splitext_def basename_def rfind_def
  startswith_def strip_def isspace_def

text \<open>
  C6, as the code has it. For every path, with \<open>b\<close> the basename without its extension:
  if \<^verbatim>\<open>" - "\<close> occurs in \<open>b\<close>, then \<open>b\<close> is \<open>l\<close>, the separator, \<open>r\<close> with no occurrence
  of the separator starting before the end of \<open>l\<close> (the first occurrence), and the result
  is \<open>l\<close> and \<open>r\<close> with the white space at both ends of each removed; otherwise the artist
  is empty and the title is \<open>b\<close>. So \<^verbatim>\<open>A - B - C.mp3\<close> gives \<^verbatim>\<open>A\<close> and \<^verbatim>\<open>B - C\<close>.
\<close>

theorem parse_filename_first_split:
  "(let b = fst (splitext (basename filepath)) in
     if (\<exists>l r. b = l @ '' - '' @ r)
     then (\<exists>l r. b = l @ '' - '' @ r
             \<and> (\<forall>l' r'. b = l' @ '' - '' @ r' \<longrightarrow> length l \<le> length l')
             \<and> parse_filename filepath = (strip l, strip r))
     else parse_filename filepath = ([], b))
   \<and> parse_filename ''A - B - C.mp3'' = (''A'', ''B - C'')"
proof
  define b where "b = fst (splitext (basename filepath))"
  show "(let b = fst (splitext (basename filepath)) in
     if (\<exists>l r. b = l @ '' - '' @ r)
     then (\<exists>l r. b = l @ '' - '' @ r
             \<and> (\<forall>l' r'. b = l' @ '' - '' @ r' \<longrightarrow> length l \<le> length l')
             \<and> parse_filename filepath = (strip l, strip r))
     else parse_filename filepath = ([], b))"
  proof (cases "contains '' - '' b")
    case True
    then obtain l r where s: "split1 '' - '' b = Some (l, r)" by (auto simp: contains_split1)
    have 1: "b = l @ '' - '' @ r" using split1_append[OF s] .
    have 2: "\<forall>l' r'. b = l' @ '' - '' @ r' \<longrightarrow> length l \<le> length l'"
      using split1_first[OF s] by blast
    have 3: "parse_filename filepath = (strip l, strip r)"
      using True s by (simp add: parse_filename_def b_def Let_def)
    from True have "\<exists>l r. b = l @ '' - '' @ r" by (simp add: contains_iff)
    with 1 2 3 show ?thesis unfolding Let_def b_def[symmetric] by (simp only: if_True) blast
  next
    case False
    then have "parse_filename filepath = ([], b)"
      by (simp add: parse_filename_def b_def Let_def)
    moreover from False have "\<not> (\<exists>l r. b = l @ '' - '' @ r)" by (simp add: contains_iff)
    ultimately show ?thesis unfolding Let_def b_def[symmetric] by (simp only: if_False)
  qed
next
  show "parse_filename ''A - B - C.mp3'' = (''A'', ''B - C'')"
    by (simp add: path_eval)
qed

theorem parse_filename_first_split_witness:
  "fst (splitext (basename ''/m/Artist - Title.mp3'')) = ''Artist - Title''
   \<and> (\<exists>l r. ''Artist - Title'' = l @ '' - '' @ r)
   \<and> (\<exists>l r. ''Artist - Title'' = l @ '' - '' @ r
          \<and> (\<forall>l' r'. ''Artist - Title'' = l' @ '' - '' @ r' \<longrightarrow> length l \<le> length l')
          \<and> parse_filename ''/m/Artist - Title.mp3'' = (strip l, strip r))
   \<and> parse_filename ''/m/Artist - Title.mp3'' = (''Artist'', ''Title'')
   \<and> parse_filename ''JustATitle.mp3'' = ([], ''JustATitle'')"
proof -
  have b: "fst (splitext (basename ''/m/Artist - Title.mp3'')) = ''Artist - Title''"
    by (simp add: path_eval)
  have e: "\<exists>l r. ''Artist - Title'' = l @ '' - '' @ r"
    by (rule exI[of _ "''Artist''"], rule exI[of _ "''Title''"]) simp
  have v: "parse_filename ''/m/Artist - Title.mp3'' = (''Artist'', ''Title'')"
    "parse_filename ''JustATitle.mp3'' = ([], ''JustATitle'')"
    by (simp_all add: path_eval)
  from parse_filename_first_split[of "''/m/Artist - Title.mp3''"] b e v show ?thesis
    by (simp only: Let_def if_True simp_thms)
qed

text \<open>
  C6, as the claim words it, fails where a part has white space at an end: for
  \<^verbatim>\<open>A  - B.mp3\<close> the left part is \<^verbatim>\<open>A\<close> followed by a blank, and the artist returned
  is \<^verbatim>\<open>A\<close>.
\<close>

theorem parse_filename_left_part_counterexample:
  "parse_filename ''A  - B.mp3'' = (''A'', ''B'')
   \<and> parse_filename_spec ''A  - B.mp3'' = (''A '', ''B'')"
  by (simp add: path_eval)

subsection \<open>The year read from a file\<close>

lemma match_year_iff:
  "match_year raw =
     (if 4 \<le> length raw \<and> (\<forall>i<4. isdigit (raw ! i)) then Some (take 4 raw) else None)"
  by (auto simp add: match_year_def list_all_length)

lemma stamp_2003_05_12: "stamp_text ''2003-05-12'' = ''2003-05-12''"
  by code_simp

lemma stamp_2003: "stamp_text ''2003'' = ''2003''"
  by code_simp

lemma stamp_circa: "stamp_text ''circa 2003'' = []"
  by code_simp

lemma stamp_99: "stamp_text ''99'' = ''0099''"
  by code_simp

lemma stamp_1999_01: "stamp_text ''1999-01'' = ''1999-01''"
  by code_simp

text \<open>
  C5, as the code has it. Whatever the tag holds besides, if its \<^verbatim>\<open>TDRC\<close> frame has a
  first value, reading the year gives the first four characters of that value's text when
  these are four digits, and the whole text otherwise. The text is that of the time stamp
  mutagen makes from the stored string, not the string: \<^verbatim>\<open>2003-05-12\<close> and \<^verbatim>\<open>2003\<close>
  give \<^verbatim>\<open>2003\<close>, the stored \<^verbatim>\<open>99\<close> gives \<^verbatim>\<open>0099\<close>, and \<^verbatim>\<open>circa 2003\<close>, which
  starts with no number, makes a time stamp with an empty text and gives the empty string.
\<close>

theorem year_extraction:
  "(\<forall>audio t v vs. audio_get audio ''TDRC'' = Some (TextFrame t (v # vs)) \<longrightarrow>
      get_tag audio ''TDRC'' =
        (if 4 \<le> length (raw_of v) \<and> (\<forall>i<4. isdigit (raw_of v ! i))
         then take 4 (raw_of v) else raw_of v))
   \<and> (\<forall>x. raw_of (TimeStamp x) = stamp_text x)
   \<and> get_tag (Some [TextFrame TDRC [TimeStamp ''2003-05-12'']]) ''TDRC'' = ''2003''
   \<and> get_tag (Some [TextFrame TDRC [TimeStamp ''2003'']]) ''TDRC'' = ''2003''
   \<and> get_tag (Some [TextFrame TDRC [TimeStamp ''99'']]) ''TDRC'' = ''0099''
   \<and> get_tag (Some [TextFrame TDRC [TimeStamp ''circa 2003'']]) ''TDRC'' = []"
proof (intro conjI allI impI)
  fix audio t v vs
  assume "audio_get audio ''TDRC'' = Some (TextFrame t (v # vs))"
  then show "get_tag audio ''TDRC'' =
        (if 4 \<le> length (raw_of v) \<and> (\<forall>i<4. isdigit (raw_of v ! i))
         then take 4 (raw_of v) else raw_of v)"
    by (auto simp add: get_tag_def Let_def match_year_iff)
qed (simp_all add: get_tag_def audio_get_def getitem_def match_year_def isdigit_def
       stamp_2003_05_12 stamp_2003 stamp_99 stamp_circa)

theorem year_extraction_witness:
  "audio_get (Some [TextFrame TPE1 [Plain ''x''],
                    TextFrame TDRC [TimeStamp ''1999-01'', TimeStamp ''2000'']]) ''TDRC''
     = Some (TextFrame TDRC [TimeStamp ''1999-01'', TimeStamp ''2000''])
   \<and> raw_of (TimeStamp ''1999-01'') = ''1999-01''
   \<and> list_all isdigit (take 4 ''1999-01'')
   \<and> get_tag (Some [TextFrame TPE1 [Plain ''x''],
                    TextFrame TDRC [TimeStamp ''1999-01'', TimeStamp ''2000'']]) ''TDRC'' = ''1999''"
proof -
  let ?a = "Some [TextFrame TPE1 [Plain ''x''],
                  TextFrame TDRC [TimeStamp ''1999-01'', TimeStamp ''2000'']]"
  have g: "audio_get ?a ''TDRC'' = Some (TextFrame TDRC [TimeStamp ''1999-01'', TimeStamp ''2000''])"
    by (simp add: audio_get_def getitem_def)
  have r: "raw_of (TimeStamp ''1999-01'') = ''1999-01''"
    by (simp add: stamp_1999_01)
  have d: "\<forall>i<4. isdigit (''1999-01'' ! i)"
    by (simp add: less_Suc_eq eval_nat_numeral isdigit_def all_conj_distrib)
  have l: "list_all isdigit (take 4 ''1999-01'')"
    by (simp add: isdigit_def)
  from year_extraction g have "get_tag ?a ''TDRC'' =
        (if 4 \<le> length (raw_of (TimeStamp ''1999-01''))
            \<and> (\<forall>i<4. isdigit (raw_of (TimeStamp ''1999-01'') ! i))
         then take 4 (raw_of (TimeStamp ''1999-01'')) else raw_of (TimeStamp ''1999-01''))"
    by blast
  with g r d l show ?thesis by simp
qed

text \<open>
  C5, as the claim words it, fails on its third example: for the stored string
  \<^verbatim>\<open>circa 2003\<close> the text of the time stamp is empty, and the year read is the empty
  string, not the stored string.
\<close>

theorem year_extraction_counterexample:
  "raw_of (TimeStamp ''circa 2003'') = []
   \<and> get_tag (Some [TextFrame TDRC [TimeStamp ''circa 2003'']]) ''TDRC'' = []"
  by (simp add: get_tag_def audio_get_def getitem_def match_year_def stamp_circa)

subsection \<open>The tag after clearing and after writing\<close>

lemma getitem_None_iff: "(getitem tags k = None) = (\<forall>f \<in> set tags. HashKey f \<noteq> k)"
  by (auto simp add: getitem_def find_None_iff)

lemma HashKey_not_text_prefix: "\<not> startswith (HashKey f) (FrameID t @ '':'')"
proof (cases f)
  case (TextFrame u vs)
  then show ?thesis by (cases t; cases u) (simp_all add: startswith_def)
next
  case (APIC m ty d bs)
  then show ?thesis by (cases t) (simp_all add: startswith_def)
qed

lemma delall_text: "delall (FrameID t) tags = filter (\<lambda>f. HashKey f \<noteq> FrameID t) tags"
proof (cases "getitem tags (FrameID t) = None")
  case True
  then have "filter (\<lambda>f. HashKey f \<noteq> FrameID t) tags = tags"
    by (simp add: getitem_None_iff)
  moreover have "filter (\<lambda>f. \<not> startswith (HashKey f) (FrameID t @ '':'')) tags = tags"
    by (simp add: HashKey_not_text_prefix)
  ultimately show ?thesis using True by (simp add: delall_def)
next
  case False
  then show ?thesis by (simp add: delall_def)
qed

lemma HashKey_not_APIC: "HashKey f \<noteq> ''APIC''"
proof (cases f)
  case (TextFrame t vs)
  then show ?thesis by (cases t) simp_all
next
  case (APIC m ty d bs)
  then show ?thesis by simp
qed

lemma startswith_APIC: "startswith (HashKey f) ''APIC:'' = (\<not> is_text f)"
proof (cases f)
  case (TextFrame t vs)
  then show ?thesis by (cases t) (simp_all add: startswith_def)
next
  case (APIC m ty d bs)
  then show ?thesis by (simp add: startswith_def)
qed

lemma delall_APIC: "delall ''APIC'' tags = filter is_text tags"
proof -
  have "getitem tags ''APIC'' = None"
    by (simp add: getitem_None_iff HashKey_not_APIC)
  then show ?thesis by (simp add: delall_def startswith_APIC)
qed

lemma clear_tags_Nil: "clear_tags tags = []"
proof -
  have "clear_tags tags =
    filter is_text (filter (\<lambda>f. HashKey f \<noteq> FrameID TCON) (filter (\<lambda>f. HashKey f \<noteq> FrameID TRCK)
      (filter (\<lambda>f. HashKey f \<noteq> FrameID TDRC) (filter (\<lambda>f. HashKey f \<noteq> FrameID TIT2)
        (filter (\<lambda>f. HashKey f \<noteq> FrameID TALB) (filter (\<lambda>f. HashKey f \<noteq> FrameID TPE1) tags))))))"
    unfolding clear_tags_def fold_simps id_apply o_apply
    using delall_text[of TPE1] delall_text[of TALB] delall_text[of TIT2]
      delall_text[of TDRC] delall_text[of TRCK] delall_text[of TCON]
    by (simp add: delall_APIC)
  also have "\<dots> = []"
  proof -
    have "\<And>f. is_text f \<Longrightarrow> HashKey f \<noteq> FrameID TCON \<Longrightarrow> HashKey f \<noteq> FrameID TRCK \<Longrightarrow>
      HashKey f \<noteq> FrameID TDRC \<Longrightarrow> HashKey f \<noteq> FrameID TIT2 \<Longrightarrow> HashKey f \<noteq> FrameID TALB \<Longrightarrow>
      HashKey f \<noteq> FrameID TPE1 \<Longrightarrow> False"
    proof -
      fix f assume a: "is_text f" "HashKey f \<noteq> FrameID TCON" "HashKey f \<noteq> FrameID TRCK"
        "HashKey f \<noteq> FrameID TDRC" "HashKey f \<noteq> FrameID TIT2" "HashKey f \<noteq> FrameID TALB"
        "HashKey f \<noteq> FrameID TPE1"
      then obtain t vs where "f = TextFrame t vs" by (cases f) simp_all
      with a show False by (cases t) simp_all
    qed
    then show ?thesis by (auto simp add: filter_empty_conv)
  qed
  finally show ?thesis .
qed















subsection \<open>Saving one file and reading it back\<close>


lemma save_single_file_saved:
  assumes "contents (files w path) = Tagged old" and "\<not> locked (files w path)"
  shows "save_single_file path suppress s w =
     (let w1 = w\<lparr>files := (files w)(path :=
                 audio_save (if id3_version s = 1 then 1 else 0)
                   (if id3_version s \<noteq> 1 then id3_version s else 3)
                   (genre_names w) (new_tags s old) (files w path))\<rparr>
      in Returned (if \<not> suppress \<and> current_file s = Some path then load_tags s w1 else s) w1)"
  using assms by (auto simp add: save_single_file_def MP3_def Let_def)




lemmas save_eval =
  save_single_file_def load_tags_def MP3_def new_tags_def clear_tags_def delall_def
  set_new_tags_def add_text_def add_def new_text_def embed_art_def getitem_def get_tag_def
  audio_get_def audio_save_def reopened_def List.map_filter_def T_for_blank_def
  match_year_def isdigit_def startswith_def png_signature_def show_box_def Let_def
  init_app_def empty_world_def blank_file_def no_file_def basename_def rfind_def


text \<open>
  C1, at an input where the code departs from it. The session \<open>cover_app\<close> has all six
  fields filled in and a cover image of three bytes. Saving it to a file with an empty tag
  writes the six text frames and the picture frame described \<^verbatim>\<open>Cover\<close>; the reload at
  the end of the save, and any later read of the file, return no cover image (and the
  year \<^verbatim>\<open>2003\<close>).
\<close>

theorem roundtrip_loses_cover:
  "album_art_bytes cover_app = Some [0xFF, 0xD8, 0xFF]
   \<and> save_single_file ''/m/a.mp3'' False cover_app cover_world
       = Returned (app_of (save_single_file ''/m/a.mp3'' False cover_app cover_world))
                  (world_of (save_single_file ''/m/a.mp3'' False cover_app cover_world))
   \<and> contents (files (world_of (save_single_file ''/m/a.mp3'' False cover_app cover_world))
                 ''/m/a.mp3'')
       = Tagged [TextFrame TPE1 [Plain ''A''], TextFrame TALB [Plain ''B''],
                 TextFrame TIT2 [Plain ''C''], TextFrame TDRC [TimeStamp ''2003-05-12''],
                 TextFrame TRCK [Plain ''1''], TextFrame TCON [Plain ''Rock''],
                 APIC ''image/jpeg'' 3 ''Cover'' [0xFF, 0xD8, 0xFF]]
   \<and> album_art_bytes (app_of (save_single_file ''/m/a.mp3'' False cover_app cover_world)) = None
   \<and> album_art_bytes (load_tags cover_app
        (world_of (save_single_file ''/m/a.mp3'' False cover_app cover_world))) = None
   \<and> year_edit (load_tags cover_app
        (world_of (save_single_file ''/m/a.mp3'' False cover_app cover_world))) = ''2003''"
  by (simp add: save_eval cover_app_def cover_world_def stamp_2003_05_12)

text \<open>
  C4, at an input where the code departs from it. The tag of the file holds one picture
  frame, described \<^verbatim>\<open>Cover\<close> as \<^verbatim>\<open>_save_single_file\<close> writes it; \<^verbatim>\<open>load_tags\<close>
  looks the picture up under the key \<^verbatim>\<open>APIC:\<close> and returns no cover image.
\<close>

theorem load_tags_misses_cover:
  "contents (files art_world ''/m/a.mp3'') = Tagged [APIC ''image/jpeg'' 3 ''Cover'' [0xFF, 0xD8, 0xFF]]
   \<and> current_file cover_app = Some ''/m/a.mp3''
   \<and> album_art_bytes (load_tags cover_app art_world) = None"
  by (simp add: save_eval cover_app_def art_world_def)

text \<open>
  What a save leaves of the two tags of a file that opens with a tag and can be saved,
  for each entry of the selector of the ID3 version (index 0 for ID3v1, 1 for v2.3, 2 for
  v2.4): the ID3v2 tag has version 3, 3 and 4; the ID3v1 tag is removed for v2.3 and v2.4,
  and for ID3v1 the file has one afterwards only if it had one before.
\<close>

lemma save_versions_on_disk:
  assumes "index \<in> {0, 1, 2}"
    and "contents (files w path) = Tagged old"
    and "\<not> locked (files w path)"
  shows "\<exists>s1. on_id3_version_change index s = Some s1
     \<and> id3v2_version (files (world_of (save_single_file path suppress s1 w)) path)
         = Some (if index = 2 then 4 else 3)
     \<and> id3v1 (files (world_of (save_single_file path suppress s1 w)) path)
         = (index = 0 \<and> id3v1 (files w path))"
proof -
  from assms(1) have v: "on_id3_version_change index s
      = Some (s\<lparr>id3_version := (if index = 0 then 1 else if index = 1 then 3 else 4)\<rparr>)"
    by (auto simp add: on_id3_version_change_def)
  show ?thesis
    unfolding v using assms(1)
    by (auto simp add: save_single_file_saved[OF assms(2,3)] Let_def audio_save_def)
qed

text \<open>
  C9, at an input where the code departs from it. The file has an ID3v2 tag and no ID3v1
  tag, and the selector is set to its first entry, \<^verbatim>\<open>ID3v1\<close>. The save goes through,
  with \<^verbatim>\<open>v1=1\<close> and \<^verbatim>\<open>v2_version=3\<close>, and leaves the file with an ID3v2.3 tag and still
  without an ID3v1 tag.
\<close>

theorem id3v1_selection_writes_no_legacy_tag:
  "on_id3_version_change 0 cover_app = Some (cover_app\<lparr>id3_version := 1\<rparr>)
   \<and> contents (files cover_world ''/m/a.mp3'') = Tagged []
   \<and> \<not> id3v1 (files cover_world ''/m/a.mp3'')
   \<and> save_single_file ''/m/a.mp3'' False (cover_app\<lparr>id3_version := 1\<rparr>) cover_world
       = Returned
           (app_of (save_single_file ''/m/a.mp3'' False (cover_app\<lparr>id3_version := 1\<rparr>) cover_world))
           (world_of (save_single_file ''/m/a.mp3'' False (cover_app\<lparr>id3_version := 1\<rparr>) cover_world))
   \<and> \<not> id3v1 (files (world_of (save_single_file ''/m/a.mp3'' False
                                  (cover_app\<lparr>id3_version := 1\<rparr>) cover_world)) ''/m/a.mp3'')
   \<and> id3v2_version (files (world_of (save_single_file ''/m/a.mp3'' False
                                  (cover_app\<lparr>id3_version := 1\<rparr>) cover_world)) ''/m/a.mp3'')
       = Some 3"
  by (simp add: save_eval cover_app_def cover_world_def on_id3_version_change_def)

subsection \<open>Saving a folder\<close>

lemma new_tags_old: "new_tags s old = new_tags s []"
  by (simp add: new_tags_def clear_tags_Nil)

lemma saved_file_show_box: "saved_file (show_box b s) w f = saved_file s w f"
  by (simp add: saved_file_def show_box_def new_tags_def set_new_tags_def embed_art_def)

lemma saved_file_idem: "saved_file s w (saved_file s w f) = saved_file s w f"
  by (simp add: saved_file_def audio_save_def)

lemma saved_file_world:
  "saved_file s (w\<lparr>files := F\<rparr>) f = saved_file s w f"
  "saved_file s (w\<lparr>printed := P\<rparr>) f = saved_file s w f"
  by (simp_all add: saved_file_def)

lemma writable_Tagged: "writable f = ((\<exists>tags. contents f = Tagged tags) \<and> \<not> locked f)"
  by (cases "contents f") (simp_all add: writable_def)

lemma writable_saved_file: "writable f \<Longrightarrow> writable (saved_file s w f)"
  by (simp add: writable_Tagged saved_file_def audio_save_def)

lemma save_good:
  assumes "writable (files w p)"
  shows "save_single_file p True s w
     = Returned s (w\<lparr>files := (files w)(p := saved_file s w (files w p))\<rparr>)"
proof -
  from assms obtain old where o: "contents (files w p) = Tagged old"
    and l: "\<not> locked (files w p)"
    by (auto simp add: writable_Tagged)
  show ?thesis
    unfolding save_single_file_saved[OF o l] saved_file_def new_tags_old[of s old]
    by (simp add: Let_def)
qed

lemma save_unreadable:
  "contents (files w p) = Unreadable \<Longrightarrow>
     save_single_file p True s w = Returned s (w\<lparr>printed := printed w @ [''Skip '' @ p]\<rparr>)"
  by (simp add: save_single_file_def MP3_def)

lemma save_locked:
  "contents (files w p) = Tagged old \<Longrightarrow> locked (files w p) \<Longrightarrow>
     save_single_file p True s w =
       Returned (show_box (Critical ''Save Error'' (''Failed to save '' @ basename p @ '':'')) s) w"
  by (simp add: save_single_file_def MP3_def Let_def)

lemma save_headerless:
  "contents (files w p) = NoHeader \<Longrightarrow> save_single_file p suppress s w = Raised AttributeError s w"
  by (simp add: save_single_file_def MP3_def)

lemma save_all_append:
  "save_all (xs @ ys) s w =
     (case save_all xs s w of
        Returned s1 w1 \<Rightarrow> save_all ys s1 w1
      | Raised e s1 w1 \<Rightarrow> Raised e s1 w1)"
  by (induction xs arbitrary: s w) (simp_all split: run.splits)

lemma save_all_good:
  "\<forall>p \<in> set ps. writable (files w p) \<Longrightarrow>
     save_all ps s w =
       Returned s
         (w\<lparr>files := (\<lambda>p. if p \<in> set ps then saved_file s w (files w p) else files w p)\<rparr>)"
proof (induction ps arbitrary: w)
  case Nil
  show ?case by simp
next
  case (Cons a ps)
  let ?w1 = "w\<lparr>files := (files w)(a := saved_file s w (files w a))\<rparr>"
  from Cons.prems have a: "writable (files w a)" by simp
  have g: "\<forall>p \<in> set ps. writable (files ?w1 p)"
    using Cons.prems by (auto intro: writable_saved_file)
  have "save_all (a # ps) s w = save_all ps s ?w1"
    by (simp add: save_good[OF a])
  also have "\<dots> = Returned s
      (?w1\<lparr>files := (\<lambda>p. if p \<in> set ps then saved_file s ?w1 (files ?w1 p) else files ?w1 p)\<rparr>)"
    by (rule Cons.IH[OF g])
  also have "?w1\<lparr>files := (\<lambda>p. if p \<in> set ps then saved_file s ?w1 (files ?w1 p) else files ?w1 p)\<rparr>
     = w\<lparr>files := (\<lambda>p. if p \<in> set (a # ps) then saved_file s w (files w p) else files w p)\<rparr>"
    by (rule world.equality) (auto simp add: fun_eq_iff saved_file_idem saved_file_world)
  finally show ?case .
qed

lemma save_all_show_box:
  "\<forall>p \<in> set ps. writable (files w p) \<Longrightarrow>
     save_all ps (show_box b s) w =
       Returned (show_box b s)
         (w\<lparr>files := (\<lambda>p. if p \<in> set ps then saved_file s w (files w p) else files w p)\<rparr>)"
  by (simp add: save_all_good saved_file_show_box cong: if_cong)

text \<open>
  C3, as the code has it. Let the target be a folder whose listing gives the \<^verbatim>\<open>.mp3\<close>
  paths \<open>mp3_files\<close>, all different, and let \<open>k\<close> be the one among them that cannot be
  written, because it does not open or because its save raises, while every other one
  opens with a tag and can be saved. Then \<^verbatim>\<open>save_tags\<close> returns, every other file is left
  as a save of the session's tags leaves it, the file \<open>k\<close> is left as it was, and the
  failure is reported for \<open>k\<close> alone: a printed line when it does not open, a
  \<^verbatim>\<open>Save Error\<close> box naming the file when its save raises. The status line at the end
  says that the tags were saved for all of \<open>mp3_files\<close>: it counts the files found, and no
  count of failures is kept. Nothing is said here of a folder that holds a file without
  ID3 header.
\<close>

theorem batch_continues_past_failure:
  assumes "\<not> nonempty (current_file s)" and "current_folder s = Some d" and "d \<noteq> []"
    and "listdir w d = Some names"
    and "mp3_files = map (path_join d) (filter is_mp3 names)"
    and "distinct mp3_files" and "k \<in> set mp3_files"
    and "contents (files w k) = Unreadable
         \<or> ((\<exists>tags. contents (files w k) = Tagged tags) \<and> locked (files w k))"
    and "\<forall>p \<in> set mp3_files. p \<noteq> k \<longrightarrow> writable (files w p)"
  shows "\<exists>s' w'. save_tags s w = Returned s' w'
     \<and> (\<forall>p \<in> set mp3_files. p \<noteq> k \<longrightarrow> files w' p = saved_file s w (files w p))
     \<and> files w' k = files w k
     \<and> status_label s' = SavedFor (length mp3_files)
     \<and> (if contents (files w k) = Unreadable
         then boxes s' = boxes s \<and> printed w' = printed w @ [''Skip '' @ k]
         else boxes s' = boxes s @ [Critical ''Save Error'' (''Failed to save '' @ basename k @ '':'')]
              \<and> printed w' = printed w)"
proof -
  from assms(7) obtain xs ys where split: "mp3_files = xs @ k # ys"
    by (auto simp add: in_set_conv_decomp)
  with assms(6) have nk: "k \<notin> set xs" "k \<notin> set ys" by auto
  from split assms(9) nk have gx: "\<forall>p \<in> set xs. writable (files w p)"
    and gy: "\<forall>p \<in> set ys. writable (files w p)" by auto
  let ?wx = "w\<lparr>files := (\<lambda>p. if p \<in> set xs then saved_file s w (files w p) else files w p)\<rparr>"
  have x: "save_all xs s w = Returned s ?wx" by (rule save_all_good[OF gx])
  have gy': "\<forall>p \<in> set ys. writable (files ?wx p)"
    using gy by (auto intro: writable_saved_file)
  have ne: "mp3_files \<noteq> []" using split by simp
  have st: "save_tags s w =
      (case save_all mp3_files s w of
         Returned s1 w1 \<Rightarrow> Returned (s1\<lparr>status_label := SavedFor (length mp3_files)\<rparr>) w1
       | Raised e s1 w1 \<Rightarrow> Raised e s1 w1)"
    using assms(1-4) ne unfolding assms(5) by (simp add: save_tags_def Let_def)
  have all: "save_all mp3_files s w =
      (case save_single_file k True s ?wx of
         Returned s1 w1 \<Rightarrow> save_all ys s1 w1
       | Raised e s1 w1 \<Rightarrow> Raised e s1 w1)"
    by (simp add: split save_all_append x)
  let ?F = "\<lambda>p. if p \<in> set xs \<or> p \<in> set ys then saved_file s w (files w p) else files w p"
  show ?thesis
  proof (cases "contents (files w k) = Unreadable")
    case True
    let ?wk = "?wx\<lparr>printed := printed w @ [''Skip '' @ k]\<rparr>"
    have k: "save_single_file k True s ?wx = Returned s ?wk"
      using save_unreadable[of ?wx k s] nk True by simp
    have g: "\<forall>p \<in> set ys. writable (files ?wk p)" using gy' by simp
    have "save_all mp3_files s w = save_all ys s ?wk"
      by (simp add: all k)
    also have "\<dots> = Returned s (?wk\<lparr>files := (\<lambda>p. if p \<in> set ys
                          then saved_file s ?wk (files ?wk p) else files ?wk p)\<rparr>)"
      by (rule save_all_good[OF g])
    also have "?wk\<lparr>files := (\<lambda>p. if p \<in> set ys then saved_file s ?wk (files ?wk p)
                                 else files ?wk p)\<rparr>
        = w\<lparr>files := ?F, printed := printed w @ [''Skip '' @ k]\<rparr>"
      by (rule world.equality) (auto simp add: fun_eq_iff saved_file_idem saved_file_world)
    finally have r: "save_all mp3_files s w
        = Returned s (w\<lparr>files := ?F, printed := printed w @ [''Skip '' @ k]\<rparr>)" .
    show ?thesis
      unfolding st r using True nk split by auto
  next
    case False
    with assms(8) obtain tags where t: "contents (files w k) = Tagged tags"
      and l: "locked (files w k)" by auto
    let ?b = "Critical ''Save Error'' (''Failed to save '' @ basename k @ '':'')"
    have k: "save_single_file k True s ?wx = Returned (show_box ?b s) ?wx"
      using save_locked[of ?wx k tags s] nk t l by simp
    have "save_all mp3_files s w = save_all ys (show_box ?b s) ?wx"
      by (simp add: all k)
    also have "\<dots> = Returned (show_box ?b s) (?wx\<lparr>files := (\<lambda>p. if p \<in> set ys
                          then saved_file s ?wx (files ?wx p) else files ?wx p)\<rparr>)"
      by (rule save_all_show_box[OF gy'])
    also have "?wx\<lparr>files := (\<lambda>p. if p \<in> set ys then saved_file s ?wx (files ?wx p)
                                 else files ?wx p)\<rparr>
        = w\<lparr>files := ?F\<rparr>"
      by (rule world.equality) (auto simp add: fun_eq_iff saved_file_idem saved_file_world)
    finally have r: "save_all mp3_files s w = Returned (show_box ?b s) (w\<lparr>files := ?F\<rparr>)" .
    show ?thesis
      unfolding st r using False nk split by (auto simp add: show_box_def)
  qed
qed

theorem batch_continues_past_failure_witness:
  "\<not> nonempty (current_file batch_app)
   \<and> current_folder batch_app = Some ''/m''
   \<and> listdir batch_world ''/m'' = Some [''a.mp3'', ''notes.txt'', ''b.mp3'']
   \<and> map (path_join ''/m'') (filter is_mp3 [''a.mp3'', ''notes.txt'', ''b.mp3''])
       = [''/m/a.mp3'', ''/m/b.mp3'']
   \<and> contents (files batch_world ''/m/a.mp3'') = Tagged []
   \<and> locked (files batch_world ''/m/a.mp3'')
   \<and> writable (files batch_world ''/m/b.mp3'')
   \<and> (\<exists>s' w'. save_tags batch_app batch_world = Returned s' w'
        \<and> files w' ''/m/b.mp3'' = saved_file batch_app batch_world blank_file
        \<and> files w' ''/m/a.mp3'' = blank_file\<lparr>locked := True\<rparr>
        \<and> status_label s' = SavedFor 2
        \<and> boxes s' = [Critical ''Save Error'' ''Failed to save a.mp3:''])"
proof -
  have h1: "\<not> nonempty (current_file batch_app)"
    and h2: "current_folder batch_app = Some ''/m''"
    and b0: "boxes batch_app = []"
    by (simp_all add: batch_app_def load_folder_path_def clear_fields_def init_app_def)
  have h3: "(''/m'' :: string) \<noteq> []" by simp
  have h4: "listdir batch_world ''/m'' = Some [''a.mp3'', ''notes.txt'', ''b.mp3'']"
    by (simp add: batch_world_def)
  have h5: "[''/m/a.mp3'', ''/m/b.mp3'']
      = map (path_join ''/m'') (filter is_mp3 [''a.mp3'', ''notes.txt'', ''b.mp3''])"
    by (simp add: is_mp3_def lower_def lower_char_def endswith_def path_join_def startswith_def)
  have h6: "distinct [''/m/a.mp3'', ''/m/b.mp3'']" by simp
  have h7: "''/m/a.mp3'' \<in> set [''/m/a.mp3'', ''/m/b.mp3'']" by simp
  have fa: "files batch_world ''/m/a.mp3'' = blank_file\<lparr>locked := True\<rparr>"
    and fb: "files batch_world ''/m/b.mp3'' = blank_file"
    by (simp_all add: batch_world_def)
  have ca: "contents (files batch_world ''/m/a.mp3'') = Tagged []"
    and la: "locked (files batch_world ''/m/a.mp3'')"
    by (simp_all add: fa blank_file_def)
  then have h8: "contents (files batch_world ''/m/a.mp3'') = Unreadable
         \<or> ((\<exists>tags. contents (files batch_world ''/m/a.mp3'') = Tagged tags)
             \<and> locked (files batch_world ''/m/a.mp3''))" by simp
  have wb: "writable (files batch_world ''/m/b.mp3'')"
    by (simp add: fb writable_def blank_file_def)
  then have h9: "\<forall>p \<in> set [''/m/a.mp3'', ''/m/b.mp3''].
      p \<noteq> ''/m/a.mp3'' \<longrightarrow> writable (files batch_world p)" by simp
  have ba: "basename ''/m/a.mp3'' = ''a.mp3''" by (simp add: basename_def rfind_def)
  have un: "contents (files batch_world ''/m/a.mp3'') \<noteq> Unreadable"
    by (simp add: ca)
  from batch_continues_past_failure[OF h1 h2 h3 h4 h5 h6 h7 h8 h9]
  obtain s' w' where r: "save_tags batch_app batch_world = Returned s' w'"
    "\<forall>p \<in> set [''/m/a.mp3'', ''/m/b.mp3'']. p \<noteq> ''/m/a.mp3'' \<longrightarrow>
        files w' p = saved_file batch_app batch_world (files batch_world p)"
    "files w' ''/m/a.mp3'' = files batch_world ''/m/a.mp3''"
    "status_label s' = SavedFor (length [''/m/a.mp3'', ''/m/b.mp3''])"
    "boxes s' = boxes batch_app @ [Critical ''Save Error'' (''Failed to save '' @ basename ''/m/a.mp3'' @ '':'')]"
    using un by auto
  from r(2) have "files w' ''/m/b.mp3'' = saved_file batch_app batch_world blank_file"
    by (simp add: fb)
  with r(1,3,4,5) have "save_tags batch_app batch_world = Returned s' w'
        \<and> files w' ''/m/b.mp3'' = saved_file batch_app batch_world blank_file
        \<and> files w' ''/m/a.mp3'' = blank_file\<lparr>locked := True\<rparr>
        \<and> status_label s' = SavedFor 2
        \<and> boxes s' = [Critical ''Save Error'' ''Failed to save a.mp3:'']"
    by (simp add: fa b0 ba)
  then have "\<exists>s' w'. save_tags batch_app batch_world = Returned s' w'
        \<and> files w' ''/m/b.mp3'' = saved_file batch_app batch_world blank_file
        \<and> files w' ''/m/a.mp3'' = blank_file\<lparr>locked := True\<rparr>
        \<and> status_label s' = SavedFor 2
        \<and> boxes s' = [Critical ''Save Error'' ''Failed to save a.mp3:'']"
    by blast
  with h1 h2 h4 h5 ca la wb show ?thesis by simp
qed

lemmas batch_eval =
  save_tags_def is_mp3_def lower_def lower_char_def endswith_def path_join_def
  load_folder_path_def clear_fields_def

text \<open>
  C3, as the claim words it, fails on the report: in a folder of two matching files of which
  the first cannot be saved, the status line says that the tags were saved for 2 files, not
  for 1, and the one failure appears in a box of its own, not in the report.
\<close>

theorem batch_report_counterexample:
  "save_tags batch_app batch_world
     = Returned (app_of (save_tags batch_app batch_world))
                (world_of (save_tags batch_app batch_world))
   \<and> status_label (app_of (save_tags batch_app batch_world)) = SavedFor 2
   \<and> boxes (app_of (save_tags batch_app batch_world))
       = [Critical ''Save Error'' ''Failed to save a.mp3:'']
   \<and> files batch_world ''/m/a.mp3'' = blank_file\<lparr>locked := True\<rparr>
   \<and> SavedFor 2 \<noteq> SavedFor (2 - 1)"
  by (simp add: batch_eval save_eval batch_app_def batch_world_def)

text \<open>
  The same folder with its first file without ID3 header: line 422 raises on it, nothing
  catches the exception, and the batch ends there with no file saved and no status line.
\<close>

lemma batch_ends_at_headerless_file:
  "save_tags batch_app
     (batch_world\<lparr>files := (files batch_world)(''/m/a.mp3'' := blank_file\<lparr>contents := NoHeader\<rparr>)\<rparr>)
   = Raised AttributeError batch_app
     (batch_world\<lparr>files := (files batch_world)(''/m/a.mp3'' := blank_file\<lparr>contents := NoHeader\<rparr>)\<rparr>)"
  by (simp add: batch_eval save_eval batch_app_def batch_world_def)

subsection \<open>Lookups that find nothing\<close>

text \<open>
  C7. When the target is a folder (\<^verbatim>\<open>current_folder\<close> is a non-empty path, as
  \<^verbatim>\<open>load_folder_path\<close> leaves it), \<^verbatim>\<open>fetch_album_art\<close> shows the box
  \<^verbatim>\<open>Folder Mode\<close> and does nothing else: the session is otherwise unchanged, and so is
  the world, in particular the list of requests sent. The box differs from every other box
  the method can show.
\<close>

theorem no_cover_fetch_in_folder_mode:
  "(nonempty (current_folder s) \<longrightarrow>
      fetch_album_art s w = (show_box (Warning ''Folder Mode'' ''Load a single file to fetch album art.'') s, w)
      \<and> requests (snd (fetch_album_art s w)) = requests w)
   \<and> (path \<noteq> [] \<longrightarrow> nonempty (current_folder (load_folder_path path s)))
   \<and> distinct [Warning ''Folder Mode'' ''Load a single file to fetch album art.'',
                Warning ''Missing Info'' ''Enter Artist and Album.'',
                Information ''Not Found'' ''No release found.'',
                Information ''No Art'' ''No album art available.'',
                art_error]"
  by (simp add: fetch_album_art_def load_folder_path_def clear_fields_def art_error_def)

theorem no_cover_fetch_in_folder_mode_witness:
  "nonempty (current_folder batch_app)
   \<and> fetch_album_art batch_app batch_world
       = (show_box (Warning ''Folder Mode'' ''Load a single file to fetch album art.'') batch_app,
          batch_world)
   \<and> requests (snd (fetch_album_art batch_app batch_world)) = []
   \<and> nonempty (current_folder (load_folder_path ''/m'' batch_app))"
proof -
  have h: "nonempty (current_folder batch_app)"
    by (simp add: batch_app_def load_folder_path_def clear_fields_def)
  have p: "(''/m'' :: string) \<noteq> []" by simp
  have r: "requests batch_world = []" by (simp add: batch_world_def empty_world_def)
  from no_cover_fetch_in_folder_mode[of batch_app batch_world "''/m''"] h p r
  show ?thesis by simp
qed

text \<open>
  C8. A recording search that is answered by a JSON object whose \<^verbatim>\<open>recordings\<close> are
  missing or empty ends in the information box \<^verbatim>\<open>No Match\<close>; a release search answered
  by an object whose \<^verbatim>\<open>releases\<close> are missing or empty ends in the information box
  \<^verbatim>\<open>Not Found\<close>; a cover request answered with a status other than 200 ends in the
  information box \<^verbatim>\<open>No Art\<close>. In each case the session is otherwise unchanged, and the
  box differs from the critical box shown for an exception.
\<close>

theorem empty_results_are_not_errors:
  "(nonempty (current_file s) \<and> search_terms s = (artist, title) \<and> artist \<noteq> [] \<and> title \<noteq> []
      \<and> net w (RecordingSearch artist title) = Some resp \<and> json_body resp = Some data
      \<and> py_get data ''recordings'' JNull = Some recs \<and> \<not> truthy recs
    \<longrightarrow> auto_fetch_info s w =
          (show_box (Information ''No Match'' ''No recording found on MusicBrainz.'') s,
           w\<lparr>requests := requests w @ [RecordingSearch artist title]\<rparr>))
   \<and> (\<not> nonempty (current_folder s) \<and> strip (artist_edit s) \<noteq> [] \<and> strip (album_edit s) \<noteq> []
      \<and> net w (ReleaseSearch (strip (album_edit s)) (strip (artist_edit s))) = Some resp
      \<and> json_body resp = Some data
      \<and> py_get data ''releases'' JNull = Some rels \<and> \<not> truthy rels
    \<longrightarrow> fetch_album_art s w =
          (show_box (Information ''Not Found'' ''No release found.'') s,
           w\<lparr>requests := requests w @ [ReleaseSearch (strip (album_edit s)) (strip (artist_edit s))]\<rparr>))
   \<and> (\<not> nonempty (current_folder s) \<and> strip (artist_edit s) \<noteq> [] \<and> strip (album_edit s) \<noteq> []
      \<and> net w (ReleaseSearch (strip (album_edit s)) (strip (artist_edit s))) = Some resp
      \<and> json_body resp = Some data
      \<and> py_get data ''releases'' JNull = Some rels \<and> truthy rels
      \<and> top_of data ''releases'' = Some release \<and> py_item release ''id'' = Some mbid
      \<and> net w (CoverFront mbid) = Some img \<and> status_code img \<noteq> 200
    \<longrightarrow> fetch_album_art s w =
          (show_box (Information ''No Art'' ''No album art available.'') s,
           w\<lparr>requests := requests w @ [ReleaseSearch (strip (album_edit s)) (strip (artist_edit s)),
                                       CoverFront mbid]\<rparr>))
   \<and> Information ''No Match'' ''No recording found on MusicBrainz.'' \<noteq> fetch_error
   \<and> Information ''Not Found'' ''No release found.'' \<noteq> art_error
   \<and> Information ''No Art'' ''No album art available.'' \<noteq> art_error"
  by (simp add: auto_fetch_info_def fetch_album_art_def http_get_def fetch_error_def art_error_def)

lemmas lookup_eval =
  lookup_app_def lookup_world_def lookup_net_def json_response_def init_app_def empty_world_def
  search_terms_def strip_def isspace_def top_of_def

theorem empty_results_are_not_errors_witness:
  "auto_fetch_info lookup_app lookup_world
     = (show_box (Information ''No Match'' ''No recording found on MusicBrainz.'') lookup_app,
        lookup_world\<lparr>requests := [RecordingSearch ''A'' ''T'']\<rparr>)
   \<and> fetch_album_art lookup_app lookup_world
     = (show_box (Information ''Not Found'' ''No release found.'') lookup_app,
        lookup_world\<lparr>requests := [ReleaseSearch ''B'' ''A'']\<rparr>)
   \<and> fetch_album_art (lookup_app\<lparr>album_edit := ''C''\<rparr>) lookup_world
     = (show_box (Information ''No Art'' ''No album art available.'') (lookup_app\<lparr>album_edit := ''C''\<rparr>),
        lookup_world\<lparr>requests := [ReleaseSearch ''C'' ''A'', CoverFront (JStr ''x'')]\<rparr>)"
proof -
  let ?s = lookup_app and ?w = lookup_world
  let ?c = "lookup_app\<lparr>album_edit := ''C''\<rparr>"
  have a: "nonempty (current_file ?s) \<and> search_terms ?s = (''A'', ''T'') \<and> ''A'' \<noteq> [] \<and> ''T'' \<noteq> []
      \<and> net ?w (RecordingSearch ''A'' ''T'') = Some (json_response (JObj [(''recordings'', JArr [])]))
      \<and> json_body (json_response (JObj [(''recordings'', JArr [])])) = Some (JObj [(''recordings'', JArr [])])
      \<and> py_get (JObj [(''recordings'', JArr [])]) ''recordings'' JNull = Some (JArr [])
      \<and> \<not> truthy (JArr [])"
    by (simp add: lookup_eval)
  have b: "\<not> nonempty (current_folder ?s) \<and> strip (artist_edit ?s) \<noteq> [] \<and> strip (album_edit ?s) \<noteq> []
      \<and> net ?w (ReleaseSearch (strip (album_edit ?s)) (strip (artist_edit ?s)))
          = Some (json_response (JObj [(''releases'', JArr [])]))
      \<and> json_body (json_response (JObj [(''releases'', JArr [])])) = Some (JObj [(''releases'', JArr [])])
      \<and> py_get (JObj [(''releases'', JArr [])]) ''releases'' JNull = Some (JArr [])
      \<and> \<not> truthy (JArr [])"
    by (simp add: lookup_eval)
  let ?d = "JObj [(''releases'', JArr [JObj [(''id'', JStr ''x'')]])]"
  let ?i = "\<lparr>status_code = 404, json_body = None, content = []\<rparr> :: response"
  have c: "\<not> nonempty (current_folder ?c) \<and> strip (artist_edit ?c) \<noteq> [] \<and> strip (album_edit ?c) \<noteq> []
      \<and> net ?w (ReleaseSearch (strip (album_edit ?c)) (strip (artist_edit ?c)))
          = Some (json_response ?d)
      \<and> json_body (json_response ?d) = Some ?d
      \<and> py_get ?d ''releases'' JNull = Some (JArr [JObj [(''id'', JStr ''x'')]])
      \<and> truthy (JArr [JObj [(''id'', JStr ''x'')]])
      \<and> top_of ?d ''releases'' = Some (JObj [(''id'', JStr ''x'')])
      \<and> py_item (JObj [(''id'', JStr ''x'')]) ''id'' = Some (JStr ''x'')
      \<and> net ?w (CoverFront (JStr ''x'')) = Some ?i \<and> status_code ?i \<noteq> 200"
    by (simp add: lookup_eval)
  have e: "strip (artist_edit ?s) = ''A''" "strip (album_edit ?s) = ''B''"
    "strip (artist_edit ?c) = ''A''" "strip (album_edit ?c) = ''C''" "requests ?w = []"
    by (simp_all add: lookup_eval)
  have 1: "auto_fetch_info ?s ?w
     = (show_box (Information ''No Match'' ''No recording found on MusicBrainz.'') ?s,
        ?w\<lparr>requests := requests ?w @ [RecordingSearch ''A'' ''T'']\<rparr>)"
    using empty_results_are_not_errors[where s = ?s and w = ?w and artist = "''A''" and title = "''T''"
       and resp = "json_response (JObj [(''recordings'', JArr [])])"
       and data = "JObj [(''recordings'', JArr [])]" and recs = "JArr []"] a
    by blast
  have 2: "fetch_album_art ?s ?w
     = (show_box (Information ''Not Found'' ''No release found.'') ?s,
        ?w\<lparr>requests := requests ?w @ [ReleaseSearch (strip (album_edit ?s)) (strip (artist_edit ?s))]\<rparr>)"
    using empty_results_are_not_errors[where s = ?s and w = ?w
       and resp = "json_response (JObj [(''releases'', JArr [])])"
       and data = "JObj [(''releases'', JArr [])]" and rels = "JArr []"] b
    by blast
  have 3: "fetch_album_art ?c ?w
     = (show_box (Information ''No Art'' ''No album art available.'') ?c,
        ?w\<lparr>requests := requests ?w @ [ReleaseSearch (strip (album_edit ?c)) (strip (artist_edit ?c)),
                                       CoverFront (JStr ''x'')]\<rparr>)"
    using empty_results_are_not_errors[where s = ?c and w = ?w
       and resp = "json_response ?d" and data = ?d and rels = "JArr [JObj [(''id'', JStr ''x'')]]"
       and release = "JObj [(''id'', JStr ''x'')]" and mbid = "JStr ''x''" and img = ?i] c
    by blast
  from 1 2 3 show ?thesis by (simp only: e append_Nil)
qed

subsection \<open>What a recording lookup leaves unchanged\<close>

lemma set_fields_frame:
  "track_edit (fst (set_fields new s)) = track_edit s"
  "boxes (fst (set_fields new s)) = boxes s"
  by (auto simp add: set_fields_def Let_def split: prod.splits json.splits)

lemma set_fields_album:
  "album_edit (fst (set_fields (a, b, t, y) s)) = album_edit s
   \<or> b = JStr (album_edit (fst (set_fields (a, b, t, y) s)))"
  by (auto simp add: set_fields_def Let_def split: json.splits)

lemma set_fields_year:
  "year_edit (fst (set_fields (a, b, t, y) s)) = year_edit s
   \<or> year_edit (fst (set_fields (a, b, t, y) s)) = y"
  by (auto simp add: set_fields_def Let_def split: json.splits)

lemma show_box_fields [simp]:
  "track_edit (show_box b s) = track_edit s"
  "album_edit (show_box b s) = album_edit s"
  "year_edit (show_box b s) = year_edit s"
  by (simp_all add: show_box_def)

text \<open>
  What a run of the lookup leaves: the session with at most a box added, or the fields set
  from the values computed from the top recording of the answer.
\<close>

lemma auto_fetch_info_cases:
  obtains (same) b where "fst (auto_fetch_info s w) = s \<or> fst (auto_fetch_info s w) = show_box b s"
  | (found) artist title resp data rec new where
      "search_terms s = (artist, title)"
      "net w (RecordingSearch artist title) = Some resp"
      "json_body resp = Some data"
      "top_of data ''recordings'' = Some rec"
      "recording_info rec artist (album_edit s) (year_edit s) = Some new"
      "fst (auto_fetch_info s w) = fst (set_fields new s)
       \<or> fst (auto_fetch_info s w) = show_box fetch_error (fst (set_fields new s))"
proof -
  obtain artist title where st: "search_terms s = (artist, title)" by (cases "search_terms s")
  show ?thesis
  proof (cases "nonempty (current_file s) \<and> artist \<noteq> [] \<and> title \<noteq> []")
    case False
    then have "fst (auto_fetch_info s w) = s
       \<or> fst (auto_fetch_info s w) = show_box (Warning ''Not Enough Info'' ''Need Artist and Title to search.'') s"
      using st by (auto simp add: auto_fetch_info_def)
    then show ?thesis by (rule same)
  next
    case pre: True
    show ?thesis
    proof (cases "Option.bind (net w (RecordingSearch artist title)) json_body")
      case None
      with pre st have "fst (auto_fetch_info s w) = show_box fetch_error s"
        by (simp add: auto_fetch_info_def http_get_def)
      then show ?thesis using same by blast
    next
      case (Some data)
      then obtain resp where resp: "net w (RecordingSearch artist title) = Some resp"
        "json_body resp = Some data"
        by (auto simp add: bind_eq_Some_conv)
      show ?thesis
      proof (cases "py_get data ''recordings'' JNull")
        case None
        with pre st resp have "fst (auto_fetch_info s w) = show_box fetch_error s"
          by (simp add: auto_fetch_info_def http_get_def)
        then show ?thesis using same by blast
      next
        case recs: (Some recs)
        show ?thesis
        proof (cases "truthy recs")
          case False
          with pre st resp recs have "fst (auto_fetch_info s w)
              = show_box (Information ''No Match'' ''No recording found on MusicBrainz.'') s"
            by (simp add: auto_fetch_info_def http_get_def)
          then show ?thesis using same by blast
        next
          case tr: True
          show ?thesis
          proof (cases "Option.bind (top_of data ''recordings'')
                          (\<lambda>rec. recording_info rec artist (album_edit s) (year_edit s))")
            case None
            with pre st resp recs tr have "fst (auto_fetch_info s w) = show_box fetch_error s"
              by (simp add: auto_fetch_info_def http_get_def)
            then show ?thesis using same by blast
          next
            case (Some new)
            then obtain rec where rec: "top_of data ''recordings'' = Some rec"
              "recording_info rec artist (album_edit s) (year_edit s) = Some new"
              by (auto simp add: bind_eq_Some_conv)
            from pre st resp recs tr Some
            have "fst (auto_fetch_info s w) = fst (set_fields new s)
               \<or> fst (auto_fetch_info s w) = show_box fetch_error (fst (set_fields new s))"
              by (auto simp add: auto_fetch_info_def http_get_def split: prod.splits)
            with st resp rec show ?thesis by (rule found)
          qed
        qed
      qed
    qed
  qed
qed

lemma recording_info_no_releases:
  assumes "recording_info rec artist album year = Some (a, b, t, y)"
    and "py_get rec ''releases'' JNull = Some rels" and "\<not> truthy rels"
  shows "b = JStr album \<and> y = year"
  using assms by (auto simp add: recording_info_def bind_eq_Some_conv split: if_splits)

lemma recording_info_no_year:
  assumes "recording_info rec artist album year = Some (a, b, t, y)"
    and "top_of rec ''releases'' = Some release"
    and "\<not> py_has release ''date''
         \<or> (\<exists>ds. py_item release ''date'' = Some (JStr ds) \<and> match_year ds = None)"
  shows "y = year"
  using assms
  by (auto simp add: recording_info_def top_of_def bind_eq_Some_conv split: if_splits)

text \<open>
  C10. Whatever the network answers, \<^verbatim>\<open>auto_fetch_info\<close> leaves the track number as it
  was. If the top recording of the answer has no releases, the album and the year are left
  as they were; if its first release has no date, or a date that does not start with four
  digits, the year is left as it was.
\<close>

theorem lookup_keeps_fields:
  "track_edit (fst (auto_fetch_info s w)) = track_edit s
   \<and> (search_terms s = (artist, title) \<and> net w (RecordingSearch artist title) = Some resp
        \<and> json_body resp = Some data \<and> top_of data ''recordings'' = Some rec
        \<and> py_get rec ''releases'' JNull = Some rels \<and> \<not> truthy rels
      \<longrightarrow> album_edit (fst (auto_fetch_info s w)) = album_edit s
          \<and> year_edit (fst (auto_fetch_info s w)) = year_edit s)
   \<and> (search_terms s = (artist, title) \<and> net w (RecordingSearch artist title) = Some resp
        \<and> json_body resp = Some data \<and> top_of data ''recordings'' = Some rec
        \<and> top_of rec ''releases'' = Some release
        \<and> (\<not> py_has release ''date''
            \<or> (\<exists>ds. py_item release ''date'' = Some (JStr ds) \<and> match_year ds = None))
      \<longrightarrow> year_edit (fst (auto_fetch_info s w)) = year_edit s)"
proof (intro conjI impI)
  show "track_edit (fst (auto_fetch_info s w)) = track_edit s"
    by (cases rule: auto_fetch_info_cases[of s w]) (auto simp add: set_fields_frame)
next
  assume h: "search_terms s = (artist, title) \<and> net w (RecordingSearch artist title) = Some resp
        \<and> json_body resp = Some data \<and> top_of data ''recordings'' = Some rec
        \<and> py_get rec ''releases'' JNull = Some rels \<and> \<not> truthy rels"
  show "album_edit (fst (auto_fetch_info s w)) = album_edit s"
  proof (cases rule: auto_fetch_info_cases[of s w])
    case (same b)
    then show ?thesis by auto
  next
    case (found artist' title' resp' data' rec' new)
    obtain a b t y where new: "new = (a, b, t, y)" by (cases new)
    from found h have "rec' = rec" "artist' = artist" by auto
    with found(5) new h have "b = JStr (album_edit s)"
      using recording_info_no_releases by blast
    with set_fields_album[of a b t y s] found(6) new show ?thesis by auto
  qed
  show "year_edit (fst (auto_fetch_info s w)) = year_edit s"
  proof (cases rule: auto_fetch_info_cases[of s w])
    case (same b)
    then show ?thesis by auto
  next
    case (found artist' title' resp' data' rec' new)
    obtain a b t y where new: "new = (a, b, t, y)" by (cases new)
    from found h have "rec' = rec" "artist' = artist" by auto
    with found(5) new h have "y = year_edit s"
      using recording_info_no_releases by blast
    with set_fields_year[of a b t y s] found(6) new show ?thesis by auto
  qed
next
  assume h: "search_terms s = (artist, title) \<and> net w (RecordingSearch artist title) = Some resp
        \<and> json_body resp = Some data \<and> top_of data ''recordings'' = Some rec
        \<and> top_of rec ''releases'' = Some release
        \<and> (\<not> py_has release ''date''
            \<or> (\<exists>ds. py_item release ''date'' = Some (JStr ds) \<and> match_year ds = None))"
  show "year_edit (fst (auto_fetch_info s w)) = year_edit s"
  proof (cases rule: auto_fetch_info_cases[of s w])
    case (same b)
    then show ?thesis by auto
  next
    case (found artist' title' resp' data' rec' new)
    obtain a b t y where new: "new = (a, b, t, y)" by (cases new)
    from found h have "rec' = rec" "artist' = artist" by auto
    with found(5) new h have "y = year_edit s"
      using recording_info_no_year by blast
    with set_fields_year[of a b t y s] found(6) new show ?thesis by auto
  qed
qed

theorem lookup_keeps_fields_witness:
  "track_edit (fst (auto_fetch_info (lookup_app\<lparr>title_edit := ''U''\<rparr>) lookup_world)) = ''7''
   \<and> album_edit (fst (auto_fetch_info (lookup_app\<lparr>title_edit := ''U''\<rparr>) lookup_world)) = ''B''
   \<and> year_edit (fst (auto_fetch_info (lookup_app\<lparr>title_edit := ''U''\<rparr>) lookup_world)) = ''1999''
   \<and> title_edit (fst (auto_fetch_info (lookup_app\<lparr>title_edit := ''U''\<rparr>) lookup_world)) = ''U2''
   \<and> year_edit (fst (auto_fetch_info (lookup_app\<lparr>title_edit := ''V''\<rparr>) lookup_world)) = ''1999''
   \<and> album_edit (fst (auto_fetch_info (lookup_app\<lparr>title_edit := ''V''\<rparr>) lookup_world)) = ''Alb''"
proof -
  let ?u = "lookup_app\<lparr>title_edit := ''U''\<rparr>" and ?v = "lookup_app\<lparr>title_edit := ''V''\<rparr>"
  let ?w = lookup_world
  let ?ru = "JObj [(''title'', JStr ''U2''), (''releases'', JArr [])]"
  let ?du = "JObj [(''recordings'', JArr [?ru])]"
  let ?rel = "JObj [(''title'', JStr ''Alb''), (''date'', JStr ''May 2003'')]"
  let ?rv = "JObj [(''title'', JStr ''V2''), (''releases'', JArr [?rel])]"
  let ?dv = "JObj [(''recordings'', JArr [?rv])]"
  have u: "search_terms ?u = (''A'', ''U'') \<and> net ?w (RecordingSearch ''A'' ''U'') = Some (json_response ?du)
        \<and> json_body (json_response ?du) = Some ?du \<and> top_of ?du ''recordings'' = Some ?ru
        \<and> py_get ?ru ''releases'' JNull = Some (JArr []) \<and> \<not> truthy (JArr [])"
    by (simp add: lookup_eval)
  have v: "search_terms ?v = (''A'', ''V'') \<and> net ?w (RecordingSearch ''A'' ''V'') = Some (json_response ?dv)
        \<and> json_body (json_response ?dv) = Some ?dv \<and> top_of ?dv ''recordings'' = Some ?rv
        \<and> top_of ?rv ''releases'' = Some ?rel
        \<and> (\<not> py_has ?rel ''date''
            \<or> (\<exists>ds. py_item ?rel ''date'' = Some (JStr ds) \<and> match_year ds = None))"
    by (simp add: lookup_eval match_year_def isdigit_def)
  have f: "track_edit ?u = ''7''" "album_edit ?u = ''B''" "year_edit ?u = ''1999''" "year_edit ?v = ''1999''"
    by (simp_all add: lookup_app_def init_app_def)
  have 1: "track_edit (fst (auto_fetch_info ?u ?w)) = track_edit ?u
      \<and> album_edit (fst (auto_fetch_info ?u ?w)) = album_edit ?u
      \<and> year_edit (fst (auto_fetch_info ?u ?w)) = year_edit ?u"
    using lookup_keeps_fields[where s = ?u and w = ?w and artist = "''A''" and title = "''U''"
       and resp = "json_response ?du" and data = ?du and rec = ?ru and rels = "JArr []"] u
    by blast
  have 2: "year_edit (fst (auto_fetch_info ?v ?w)) = year_edit ?v"
    using lookup_keeps_fields[where s = ?v and w = ?w and artist = "''A''" and title = "''V''"
       and resp = "json_response ?dv" and data = ?dv and rec = ?rv and release = ?rel] v
    by blast
  have 3: "title_edit (fst (auto_fetch_info ?u ?w)) = ''U2''"
    "album_edit (fst (auto_fetch_info ?v ?w)) = ''Alb''"
    by (simp_all add: lookup_eval auto_fetch_info_def http_get_def recording_info_def
          set_fields_def match_year_def isdigit_def)
  from 1 2 3 f show ?thesis by simp
qed

end
